theory Spec2Isabelle
  imports Complex_Main
begin

section \<open>OpenVDB From Particles: a model of SOP\_OpenVDB\_From\_Particles.cc\<close>

text \<open>
  The development follows \<^verbatim>\<open>openvdb_houdini/houdini/SOP_OpenVDB_From_Particles.cc\<close>.
  A value of type \<^verbatim>\<open>float\<close>, \<^verbatim>\<open>fpreal\<close> or \<^verbatim>\<open>openvdb::Real\<close> is the real number
  it denotes, and every operation of the source that rounds is written with the rounding
  it performs: \<open>float32\<close> for a result of type \<^verbatim>\<open>float\<close>, \<open>float64\<close> for a result of
  type \<^verbatim>\<open>double\<close> (\<^verbatim>\<open>fpreal\<close> and \<^verbatim>\<open>openvdb::Real\<close> are doubles). Widening a
  float to a double is exact and is not written. C++ \<^verbatim>\<open>int\<close> is read as an unbounded
  integer: the conversion to \<^verbatim>\<open>int\<close> of a value beyond the 32-bit range, undefined in
  C++, is outside the model.
\<close>

subsection \<open>Floating-point arithmetic\<close>

text \<open>
  Rounding to the nearest integer, a tie going to the even one.
\<close>

definition round_even :: "real \<Rightarrow> int" where
  "round_even y =
     (let f = \<lfloor>y\<rfloor>; d = y - real_of_int f
      in if d < 1 / 2 then f else if 1 / 2 < d then f + 1 else if even f then f else f + 1)"

text \<open>
  IEEE 754 rounding to nearest, ties to even, into the binary format with \<open>p\<close>
  significant bits and least normal exponent \<open>emin\<close>: the value is rounded to a
  multiple of the unit in the last place of its binade, or of the least binade for a
  subnormal value. An operation of the source is the rounding of its exact result. A
  result beyond the largest finite value, an infinity in the program, is outside the
  model, as a division by zero is.
\<close>

definition rnd :: "nat \<Rightarrow> int \<Rightarrow> real \<Rightarrow> real" where
  "rnd p emin x =
     (if x = 0 then 0
      else (let e = max emin \<lfloor>log 2 \<bar>x\<bar>\<rfloor>;
                u = 2 powi (e - int p + 1)
            in sgn x * real_of_int (round_even (\<bar>x\<bar> / u)) * u))"

text \<open>The formats of \<^verbatim>\<open>float\<close> (binary32) and \<^verbatim>\<open>double\<close> (binary64).\<close>

definition float32 :: "real \<Rightarrow> real" where
  "float32 x = rnd 24 (- 126) x"

definition float64 :: "real \<Rightarrow> real" where
  "float64 x = rnd 53 (- 1022) x"

text \<open>
  The normal range of doubles: the reals from the least normal double up to, and
  excluding, the value from which rounding to nearest overflows.
\<close>

definition normal64 :: "real \<Rightarrow> bool" where
  "normal64 x \<longleftrightarrow> 2 powi (- 1022) \<le> \<bar>x\<bar> \<and> \<bar>x\<bar> < 2 powi 1024 - 2 powi 970"

subsection \<open>Geometry and the particle adapter (lines 78--151)\<close>

type_synonym vec3 = "real \<times> real \<times> real"
type_synonym coord = "int \<times> int \<times> int"

datatype GA_Storage =
  GA_STORE_INVALID | GA_STORE_BOOL | GA_STORE_UINT8 | GA_STORE_INT8
  | GA_STORE_INT16 | GA_STORE_INT32 | GA_STORE_INT64
  | GA_STORE_REAL16 | GA_STORE_REAL32 | GA_STORE_REAL64 | GA_STORE_STRING

datatype GA_TypeInfo =
  GA_TYPE_VOID | GA_TYPE_POINT | GA_TYPE_HPOINT | GA_TYPE_VECTOR | GA_TYPE_NORMAL
  | GA_TYPE_COLOR | GA_TYPE_TRANSFORM | GA_TYPE_QUATERNION | GA_TYPE_INDEXPAIR

text \<open>The tuple interface of an attribute: what \<^verbatim>\<open>getStorage\<close> and
  \<^verbatim>\<open>getTupleSize\<close> answer.\<close>

record GA_AIFTuple =
  getStorage :: GA_Storage
  getTupleSize :: int

record GA_Attribute =
  getTypeInfo :: GA_TypeInfo
  getAIFTuple :: "GA_AIFTuple option"

text \<open>
  A point geometry (\<^verbatim>\<open>GU_Detail\<close>): the point positions, the two standard
  attributes the adapter binds handles to (\<^verbatim>\<open>pscale\<close> and \<^verbatim>\<open>v\<close>; \<open>None\<close>
  is an invalid handle), and \<^verbatim>\<open>findPointAttribute\<close>. The latter answers \<open>None\<close>
  for an invalid reference and \<open>Some None\<close> for a valid reference whose
  \<^verbatim>\<open>getAttribute()\<close> is null. Point offsets coincide with point indices.
\<close>

record GU_Detail =
  points :: "vec3 list"
  pscale :: "(nat \<Rightarrow> real) option"
  velocity :: "(nat \<Rightarrow> vec3) option"
  findPointAttribute :: "string \<Rightarrow> GA_Attribute option option"

record ParticleList =
  mGdp :: GU_Detail
  mScaleHandle :: "(nat \<Rightarrow> real) option"
  mVelHandle :: "(nat \<Rightarrow> vec3) option"
  mHasRadius :: bool
  mHasVelocity :: bool
  mRadiusMult :: real
  mVelocityMult :: real

text \<open>The constructor (lines 84--95).\<close>

definition newParticleList :: "GU_Detail \<Rightarrow> real \<Rightarrow> real \<Rightarrow> ParticleList" where
  "newParticleList gdp radiusMult velocityMult =
     \<lparr> mGdp = gdp,
       mScaleHandle = pscale gdp,
       mVelHandle = velocity gdp,
       mHasRadius = (pscale gdp \<noteq> None),
       mHasVelocity = (velocity gdp \<noteq> None),
       mRadiusMult = radiusMult,
       mVelocityMult = velocityMult \<rparr>"

definition hasRadius :: "ParticleList \<Rightarrow> bool" where
  "hasRadius pa = mHasRadius pa"

definition hasVelocity :: "ParticleList \<Rightarrow> bool" where
  "hasVelocity pa = mHasVelocity pa"

definition radiusMult :: "ParticleList \<Rightarrow> real" where
  "radiusMult pa = mRadiusMult pa"

definition setRadiusMult :: "real \<Rightarrow> ParticleList \<Rightarrow> ParticleList" where
  "setRadiusMult mult pa = pa\<lparr>mRadiusMult := mult\<rparr>"

definition size_pa :: "ParticleList \<Rightarrow> nat" where
  "size_pa pa = length (points (mGdp pa))"

text \<open>
  The accessors. Reading past the last point, or through a handle that is not valid
  (where the source has \<^verbatim>\<open>UT_ASSERT\<close>), has no defined result: \<open>None\<close>. The
  multipliers are doubles and the attribute values floats, so each product is a double.
\<close>

definition getPos :: "ParticleList \<Rightarrow> nat \<Rightarrow> vec3 option" where
  "getPos pa n = (if n < size_pa pa then Some (points (mGdp pa) ! n) else None)"

definition getPosRad :: "ParticleList \<Rightarrow> nat \<Rightarrow> (vec3 \<times> real) option" where
  "getPosRad pa n =
     (if n < size_pa pa \<and> mHasRadius pa then
        (case mScaleHandle pa of
           None \<Rightarrow> None
         | Some scale \<Rightarrow> Some (points (mGdp pa) ! n, float64 (mRadiusMult pa * scale n)))
      else None)"

definition getPosRadVel :: "ParticleList \<Rightarrow> nat \<Rightarrow> (vec3 \<times> real \<times> vec3) option" where
  "getPosRadVel pa n =
     (if n < size_pa pa \<and> mHasVelocity pa then
        (case mVelHandle pa of
           None \<Rightarrow> None
         | Some vel \<Rightarrow>
             (let rad = (if mHasRadius pa
                         then (case mScaleHandle pa of
                                 None \<Rightarrow> None
                               | Some scale \<Rightarrow> Some (float64 (mRadiusMult pa * scale n)))
                         else Some (mRadiusMult pa))
              in case rad of
                   None \<Rightarrow> None
                 | Some r \<Rightarrow>
                     (case vel n of (vx, vy, vz) \<Rightarrow>
                        Some (points (mGdp pa) ! n, r,
                              (float64 (mVelocityMult pa * vx), float64 (mVelocityMult pa * vy),
                               float64 (mVelocityMult pa * vz))))))
      else None)"

definition getAtt :: "ParticleList \<Rightarrow> nat \<Rightarrow> int" where
  "getAtt pa n = int n"

subsection \<open>Node parameters\<close>

text \<open>
  One field per parameter the cook evaluates, under the parameter's token. The
  multi-parameter \<^verbatim>\<open>attrList\<close> is the list of its instances
  (\<^verbatim>\<open>attribute#\<close>, \<^verbatim>\<open>attributeGridName#\<close>, \<^verbatim>\<open>vecType#\<close>); instance \<open>i\<close> of the
  source (counted from 1) is element \<open>i - 1\<close>, and \<^verbatim>\<open>evalInt("attrList")\<close> is the
  length of the list.
\<close>

record parms =
  voxelsize :: real
  builddistance :: int
  distancename :: string
  buildfog :: int
  fogname :: string
  buildmask :: int
  maskname :: string
  boundinglimit :: real
  referencevdb :: string
  merge :: int
  useworldspace :: int
  halfbandvoxels :: real
  halfband :: real
  conversion :: int
  particlescale :: real
  minradius :: real
  velocitytrails :: int
  velocityscale :: real
  trailresolution :: real
  attrList :: "(string \<times> string \<times> int) list"
  dilation :: int
  closing :: int
  smoothing :: int

subsection \<open>The half-band unit converter (lines 669--691)\<close>

text \<open>
  \<open>voxSize\<close> is the voxel size of the node's cache (0.1 when there is none), a float.
  The parameters are doubles, so the product and the quotient are computed in double
  precision.
\<close>

definition convertUnits :: "real \<Rightarrow> parms \<Rightarrow> parms" where
  "convertUnits voxSize P =
     (if useworldspace P \<noteq> 0
      then P\<lparr>halfband := float64 (halfbandvoxels P * voxSize)\<rparr>
      else P\<lparr>halfbandvoxels := float64 (halfband P / voxSize)\<rparr>)"

subsection \<open>Grids\<close>

datatype GridClass = GRID_UNKNOWN | GRID_LEVEL_SET | GRID_FOG_VOLUME | GRID_STAGGERED

datatype ValueType =
  VT_float | VT_double | VT_Int32 | VT_Int64 | VT_bool | VT_Vec3i | VT_Vec3s | VT_Vec3d

record Transform =
  voxelSize :: vec3
  translation :: vec3

text \<open>
  Modelled from the spec: \<^verbatim>\<open>openvdb::math::Transform\<close> is not among the sources. The
  spec's transform is a uniform voxel size and an origin;
  \<^verbatim>\<open>createLinearTransform(voxelSize)\<close> has that voxel size on every axis and the
  origin at zero.
\<close>

definition createLinearTransform :: "real \<Rightarrow> Transform" where
  "createLinearTransform vs = \<lparr> voxelSize = (vs, vs, vs), translation = (0, 0, 0) \<rparr>"

text \<open>
  Modelled from the spec: \<^verbatim>\<open>openvdb::Grid\<close> is not among the sources. A scalar
  grid is the spec's sparse scalar field: a map from voxel coordinates to the values of
  the active voxels, one background value for every other coordinate, a transform and a
  class. \<open>gridType\<close> is the value type the grid was built with (\<^verbatim>\<open>grid.type()\<close>);
  only a grid of type \<open>VT_float\<close> is an \<^verbatim>\<open>openvdb::FloatGrid\<close>.
\<close>

record Grid =
  gridType :: ValueType
  getGridClass :: GridClass
  transform :: Transform
  getName :: string
  background :: real
  voxels :: "coord \<Rightarrow> real option"

record Int32Grid =
  idxTransform :: Transform
  idxVoxels :: "coord \<Rightarrow> int option"

record MaskGrid =
  maskTransform :: Transform
  maskActive :: "coord set"

definition getValue :: "Grid \<Rightarrow> coord \<Rightarrow> real" where
  "getValue g c = (case voxels g c of None \<Rightarrow> background g | Some v \<Rightarrow> v)"

definition activeVoxels :: "Grid \<Rightarrow> coord set" where
  "activeVoxels g = {c. voxels g c \<noteq> None}"

text \<open>
  Modelled from the spec: \<^verbatim>\<open>FloatGrid::create(background)\<close> answers a grid with no
  active voxel, the given background, no class and the identity transform.
\<close>

definition FloatGrid_create :: "real \<Rightarrow> Grid" where
  "FloatGrid_create bg =
     \<lparr> gridType = VT_float, getGridClass = GRID_UNKNOWN,
       transform = createLinearTransform 1, getName = [],
       background = bg, voxels = (\<lambda>c. None) \<rparr>"

text \<open>
  Modelled from the spec: \<^verbatim>\<open>gridPtrCast<FloatGrid>(g.deepCopyGrid())\<close> answers a
  copy of the grid, or null when the grid is not a float grid.
\<close>

definition deepCopyAsFloatGrid :: "Grid \<Rightarrow> Grid option" where
  "deepCopyAsFloatGrid g = (if gridType g = VT_float then Some g else None)"

text \<open>
  Modelled from the spec: \<^verbatim>\<open>openvdb::tools::csgUnion\<close> (openvdb/tools/Composite.h)
  is not among the sources. The spec has the union of two signed-distance fields take,
  per voxel, the smaller signed distance. The result is written into the first
  argument, which keeps its transform and background.
\<close>

definition csgUnion :: "Grid \<Rightarrow> Grid \<Rightarrow> Grid" where
  "csgUnion a b =
     a\<lparr>voxels := (\<lambda>c. if voxels a c = None \<and> voxels b c = None then None
                       else Some (min (getValue a c) (getValue b c)))\<rparr>"

text \<open>
  Modelled from the spec: \<^verbatim>\<open>openvdb::tools::csgDifference\<close>
  (openvdb/tools/Composite.h) is not among the sources. The spec has the difference as a
  per-voxel max-style operator that keeps the region inside the first surface and outside
  the second: the larger of the first distance and the negated second distance. The
  result is written into the first argument.
\<close>

definition csgDifference :: "Grid \<Rightarrow> Grid \<Rightarrow> Grid" where
  "csgDifference a b =
     a\<lparr>voxels := (\<lambda>c. if voxels a c = None \<and> voxels b c = None then None
                       else Some (max (getValue a c) (- getValue b c)))\<rparr>"

text \<open>
  Modelled from the spec: \<^verbatim>\<open>openvdb::tools::sdfToFogVolume\<close>
  (openvdb/tools/LevelSetUtil.h) is not among the sources. The spec has it turn a
  signed-distance field into a density between 0 and 1: 1 deep inside, 0 outside, linear
  through the interior part of the band; the tooltip of the fog toggle (lines 346--350)
  adds that the exterior is set to zero and marked inactive. The background becomes 0.
\<close>

definition sdfToFogVolume :: "Grid \<Rightarrow> Grid" where
  "sdfToFogVolume g =
     g\<lparr>getGridClass := GRID_FOG_VOLUME,
       background := 0,
       voxels := (\<lambda>c. case voxels g c of
                          None \<Rightarrow> None
                        | Some d \<Rightarrow> if d < 0 then Some (min 1 (- d / background g))
                                    else None)\<rparr>"

subsection \<open>The rasterizer and the other external tools\<close>

text \<open>
  The three entry points of \<^verbatim>\<open>openvdb::tools::ParticlesToLevelSet\<close> the node
  uses, each with the adapter it is handed: \<^verbatim>\<open>rasterizeSpheres(pa)\<close>,
  \<^verbatim>\<open>rasterizeSpheres(pa, radius)\<close> and \<^verbatim>\<open>rasterizeTrails(pa, delta)\<close>.
\<close>

datatype RasterJob =
  RasterizeSpheres ParticleList
  | RasterizeSpheresRadius ParticleList real
  | RasterizeTrails ParticleList real

text \<open>
  Modelled from the spec: \<^verbatim>\<open>openvdb::tools::ParticlesToLevelSet\<close> is not among the
  sources. The radius the rasterizer works with for particle \<open>n\<close> is the one it reads
  through the adapter. The spec has the trail samples use the particle's effective radius
  or the constant fallback, and the adapter's comments (lines 112, 119 and 129) name the
  accessor each entry point requires: \<^verbatim>\<open>getPosRad\<close> for \<^verbatim>\<open>rasterizeSpheres(pa)\<close>,
  \<^verbatim>\<open>getPos\<close> and the radius argument for \<^verbatim>\<open>rasterizeSpheres(pa, radius)\<close>,
  \<^verbatim>\<open>getPosRadVel\<close> for \<^verbatim>\<open>rasterizeTrails\<close>.
\<close>

fun jobRadius :: "RasterJob \<Rightarrow> nat \<Rightarrow> real option" where
  "jobRadius (RasterizeSpheres pa) n = map_option snd (getPosRad pa n)"
| "jobRadius (RasterizeSpheresRadius pa radius) n = map_option (\<lambda>p. radius) (getPos pa n)"
| "jobRadius (RasterizeTrails pa delta) n = map_option (\<lambda>prv. fst (snd prv)) (getPosRadVel pa n)"

fun jobParticles :: "RasterJob \<Rightarrow> ParticleList" where
  "jobParticles (RasterizeSpheres pa) = pa"
| "jobParticles (RasterizeSpheresRadius pa radius) = pa"
| "jobParticles (RasterizeTrails pa delta) = pa"

text \<open>
  One use of a \<^verbatim>\<open>ParticlesToLevelSet\<close> object: the target grid as it is handed
  over, whether the closest-point index grid is asked for (the \<^verbatim>\<open>Int32\<close> attribute
  type of \<^verbatim>\<open>convertWithAttributes\<close>), \<^verbatim>\<open>Rmin\<close>, \<^verbatim>\<open>Rmax\<close> and the job; and what
  comes back after \<^verbatim>\<open>finalize(true)\<close>: the voxels written into the target (whose
  background and transform the caller has preset), the counts of ignored particles and
  the index grid.
\<close>

record RasterCall =
  rcGrid :: Grid
  rcWithIndex :: bool
  rcRmin :: real
  rcRmax :: real
  rcJob :: RasterJob

record RasterResult =
  rrVoxels :: "coord \<Rightarrow> real option"
  getMinCount :: nat
  getMaxCount :: nat
  attributeGrid :: Int32Grid

text \<open>
  Modelled from the spec: \<^verbatim>\<open>ParticlesToLevelSet::ignoredParticles\<close> is not among
  the sources. The rasterizer reports the counts of particles ignored as too small and as
  too large; particles have been ignored when either count is positive.
\<close>

definition ignoredParticles :: "RasterResult \<Rightarrow> bool" where
  "ignoredParticles r = (getMinCount r > 0 \<or> getMaxCount r > 0)"

text \<open>
  The tools the cook calls and whose code is outside the sources are parameters of the
  model: the rasterizer, \<^verbatim>\<open>openvdb::tools::topologyToLevelSet\<close>,
  \<^verbatim>\<open>GUvdbCreatePointMaskGrid\<close>, and the interrupter, polled at two places
  (0: line 901 of the cook; 1: line 1094, after the rasterization with attributes).
  The tools are taken to return: an exception from one of them, which line 1012 turns
  into an error of the node, is outside the model.
\<close>

record Env =
  particlesToLevelSet :: "RasterCall \<Rightarrow> RasterResult"
  topologyToLevelSet :: "MaskGrid \<Rightarrow> int \<Rightarrow> int \<Rightarrow> int \<Rightarrow> int \<Rightarrow> Grid"
  GUvdbCreatePointMaskGrid :: "Transform \<Rightarrow> GU_Detail \<Rightarrow> MaskGrid"
  wasInterrupted :: "nat \<Rightarrow> bool"

subsection \<open>The state of a cook\<close>

text \<open>
  The diagnostics of the node, by their text in the source:
  \<^item> \<open>VoxelSizeTooSmall v\<close>: "The voxel size (v) is too small."
  \<^item> \<open>NoOutputSelected\<close>: "No output selected"
  \<^item> \<open>MatchingReference\<close>: "Note: Matching reference level set half-band width and
    background value. (UI half-band parameter is ignored.)"
  \<^item> \<open>NotAFloatGrid\<close>: "Cannot write into the selected reference grid because it is not
    a float grid."
  \<^item> \<open>NotALevelSet\<close>: "Can only write directly into a level set grid."
  \<^item> \<open>NoVdbPrimitives\<close>: "Second input has no VDB primitives."
  \<^item> \<open>TrailsNeedVelocity\<close>: "Velocity trails require a velocity point attribute named
    'v' of type 3fv."
  \<^item> \<open>IgnoredParticles a b\<close>: "Ignored a small and b large particles (hint: change
    Minimum Radius in Voxels)"
  \<^item> \<open>SkippedAttribute n\<close>: "Skipped unrecognized attribute: 'n'"
  \<^item> \<open>SkippedAttributeType\<close>: "Skipped unrecognized attribute type"
\<close>

datatype Diagnostic =
  VoxelSizeTooSmall real
  | NoOutputSelected
  | MatchingReference
  | NotAFloatGrid
  | NotALevelSet
  | NoVdbPrimitives
  | TrailsNeedVelocity
  | IgnoredParticles nat nat
  | SkippedAttribute string
  | SkippedAttributeType

text \<open>
  One entry of the \<^verbatim>\<open>hvdb::AttributeDetailList\<close>: the value type of the grid, the
  name of the point attribute it reads, the tuple component, the vector flag, the
  vector type set on the grid, and the custom name (\<open>None\<close>: the name the
  \<^verbatim>\<open>AttributeDetail\<close> constructor gives).
\<close>

record AttributeDetail =
  adValueType :: ValueType
  adAttribute :: string
  adComponent :: int
  adIsVector :: bool
  adVecType :: "int option"
  adName :: "string option"

text \<open>
  The primitives of the output geometry, by the \<^verbatim>\<open>createVdbPrimitive\<close> call that
  adds them: the mask (line 989), the distance field (line 994), the fog volume
  (line 1008), an attribute grid with the transform set on it (line 1308) and the
  closest-point index grid under its name (line 1110).
\<close>

datatype Prim =
  MaskPrim Grid
  | DistancePrim Grid
  | FogPrim Grid
  | AttributePrim AttributeDetail Transform
  | IndexPrim Int32Grid string

text \<open>The calls into the external tools and the grids created, in order.\<close>

datatype ExtCall =
  CreateGrid real
  | Rasterize RasterCall
  | PointMask Transform
  | TopologyToLevelSet MaskGrid int int int int

record Node =
  errors :: "Diagnostic list"
  warnings :: "Diagnostic list"
  messages :: "Diagnostic list"
  gdp :: "Prim list"
  calls :: "ExtCall list"
  mVoxelSize :: real

definition addError :: "Diagnostic \<Rightarrow> Node \<Rightarrow> Node" where
  "addError d st = st\<lparr>errors := errors st @ [d]\<rparr>"

definition addWarning :: "Diagnostic \<Rightarrow> Node \<Rightarrow> Node" where
  "addWarning d st = st\<lparr>warnings := warnings st @ [d]\<rparr>"

definition addMessage :: "Diagnostic \<Rightarrow> Node \<Rightarrow> Node" where
  "addMessage d st = st\<lparr>messages := messages st @ [d]\<rparr>"

definition createVdbPrimitive :: "Prim \<Rightarrow> Node \<Rightarrow> Node" where
  "createVdbPrimitive p st = st\<lparr>gdp := gdp st @ [p]\<rparr>"

definition called :: "ExtCall \<Rightarrow> Node \<Rightarrow> Node" where
  "called c st = st\<lparr>calls := calls st @ [c]\<rparr>"

text \<open>The node before a cook: no diagnostics, an empty output geometry, and the
  voxel size member at its initial value \<^verbatim>\<open>0.1f\<close>.\<close>

definition newNode :: Node where
  "newNode = \<lparr> errors = [], warnings = [], messages = [], gdp = [], calls = [],
               mVoxelSize = float32 (1 / 10) \<rparr>"

subsection \<open>Rasterization (lines 1023--1113)\<close>

text \<open>
  The choice of the entry point, written twice in the source (lines 1036--1044 and
  1072--1080) with the same text. The trail resolution is narrowed to a float; the
  largest radius is the float literal \<^verbatim>\<open>1e15f\<close>.
\<close>

definition rasterJob :: "parms \<Rightarrow> ParticleList \<Rightarrow> RasterJob" where
  "rasterJob P paList =
     (let velocityTrails = (velocitytrails P = 1) in
      if velocityTrails \<and> hasVelocity paList
      then RasterizeTrails paList (float32 (trailresolution P))
      else if hasRadius paList then RasterizeSpheres paList
      else RasterizeSpheresRadius paList (radiusMult paList))"

definition rasterCall :: "parms \<Rightarrow> bool \<Rightarrow> Grid \<Rightarrow> ParticleList \<Rightarrow> RasterCall" where
  "rasterCall P withIndex outputGrid paList =
     \<lparr> rcGrid = outputGrid, rcWithIndex = withIndex,
       rcRmin = minradius P, rcRmax = float32 1000000000000000,
       rcJob = rasterJob P paList \<rparr>"

definition warnIgnored :: "RasterResult \<Rightarrow> Node \<Rightarrow> Node" where
  "warnIgnored r st =
     (if ignoredParticles r
      then addWarning (IgnoredParticles (getMinCount r) (getMaxCount r)) st
      else st)"

definition convert :: "Env \<Rightarrow> parms \<Rightarrow> Grid \<Rightarrow> ParticleList \<Rightarrow> Node \<Rightarrow> Grid \<times> Node" where
  "convert E P outputGrid paList st =
     (let c = rasterCall P False outputGrid paList;
          r = particlesToLevelSet E c
      in (outputGrid\<lparr>voxels := rrVoxels r\<rparr>, warnIgnored r (called (Rasterize c) st)))"

subsection \<open>The attribute list (lines 1118--1287)\<close>

text \<open>The decimal digits of a tuple component, as \<^verbatim>\<open>name << c\<close> prints them.\<close>

fun decimal :: "nat \<Rightarrow> string" where
  "decimal n =
     (if n div 10 = 0 then [] else decimal (n div 10)) @ [''0123456789'' ! (n mod 10)]"

declare decimal.simps [simp del]

text \<open>
  \<^verbatim>\<open>addAttributeDetails<ValueType>\<close> (lines 1229--1287): one vector-valued entry when
  a vector type is given, one entry per tuple component otherwise. A call without the
  last argument has \<open>vecType = -1\<close>.
\<close>

definition addAttributeDetails ::
  "ValueType \<Rightarrow> string \<Rightarrow> int \<Rightarrow> string \<Rightarrow> int \<Rightarrow> AttributeDetail list \<Rightarrow> AttributeDetail list"
where
  "addAttributeDetails vt attribute attrTupleSize customName vecType attributeList =
     (if vecType \<noteq> - 1 then
        attributeList @
          [\<lparr> adValueType = vt, adAttribute = attribute, adComponent = 0, adIsVector = True,
             adVecType = Some vecType,
             adName = (if length customName > 0 then Some customName else None) \<rparr>]
      else
        attributeList @
          map (\<lambda>c. \<lparr> adValueType = vt, adAttribute = attribute, adComponent = int c,
                     adIsVector = False, adVecType = None,
                     adName = (if length customName > 0
                               then Some (customName @
                                          (if attrTupleSize \<noteq> 1 then ''_'' @ decimal c
                                           else []))
                               else None) \<rparr>)
              [0 ..< nat attrTupleSize])"

text \<open>
  The body of the loop of \<^verbatim>\<open>constructGenericAtttributeList\<close> for instance \<open>i\<close>, on
  the triple of the list built so far, \<^verbatim>\<open>closestPointIndexInstance\<close> and the node.
\<close>

definition attributeStep ::
  "GU_Detail \<Rightarrow> int \<Rightarrow> string \<times> string \<times> int \<Rightarrow> AttributeDetail list \<times> int \<times> Node
     \<Rightarrow> AttributeDetail list \<times> int \<times> Node"
where
  "attributeStep ptGeo i inst acc =
     (case inst of (attrName, gridName, vecType) \<Rightarrow>
      case acc of (pointAttributes, closestPointIndexInstance, st) \<Rightarrow>
        if length attrName = 0 then acc
        else if attrName = ''point_list_index''
        then (pointAttributes, i, st)
        else
          (case findPointAttribute ptGeo attrName of
             None \<Rightarrow>
               (pointAttributes, closestPointIndexInstance,
                addWarning (SkippedAttribute attrName) st)
           | Some None \<Rightarrow>
               (pointAttributes, closestPointIndexInstance,
                addWarning SkippedAttributeType st)
           | Some (Some attr) \<Rightarrow>
               (case getAIFTuple attr of
                  None \<Rightarrow>
                    (pointAttributes, closestPointIndexInstance,
                     addWarning SkippedAttributeType st)
                | Some tupleAIF \<Rightarrow>
                    (let customName = gridName;
                         attrStorage = getStorage tupleAIF;
                         attrTupleSize = getTupleSize tupleAIF;
                         typeInfo = getTypeInfo attr;
                         interpertAsVector =
                           (typeInfo = GA_TYPE_HPOINT \<or> typeInfo = GA_TYPE_POINT
                            \<or> typeInfo = GA_TYPE_VECTOR \<or> typeInfo = GA_TYPE_NORMAL);
                         asVector = (interpertAsVector \<or> attrTupleSize = 3);
                         add = (\<lambda>vt vec. addAttributeDetails vt attrName attrTupleSize
                                            customName vec pointAttributes)
                     in
                       if attrStorage = GA_STORE_INT16 \<or> attrStorage = GA_STORE_INT32 then
                         (if asVector then (add VT_Vec3i vecType, closestPointIndexInstance, st)
                          else (add VT_Int32 (- 1), closestPointIndexInstance, st))
                       else if attrStorage = GA_STORE_INT64 then
                         (add VT_Int64 (- 1), closestPointIndexInstance, st)
                       else if attrStorage = GA_STORE_REAL16 \<or> attrStorage = GA_STORE_REAL32 then
                         (if asVector then (add VT_Vec3s vecType, closestPointIndexInstance, st)
                          else (add VT_float (- 1), closestPointIndexInstance, st))
                       else if attrStorage = GA_STORE_REAL64 then
                         (if asVector then (add VT_Vec3d vecType, closestPointIndexInstance, st)
                          else (add VT_double (- 1), closestPointIndexInstance, st))
                       else
                         (pointAttributes, closestPointIndexInstance,
                          addWarning SkippedAttributeType st)))))"

fun attributeLoop ::
  "GU_Detail \<Rightarrow> int \<Rightarrow> (string \<times> string \<times> int) list \<Rightarrow> AttributeDetail list \<times> int \<times> Node
     \<Rightarrow> AttributeDetail list \<times> int \<times> Node"
where
  "attributeLoop ptGeo i [] acc = acc"
| "attributeLoop ptGeo i (inst # rest) acc =
     attributeLoop ptGeo (i + 1) rest (attributeStep ptGeo i inst acc)"

definition constructGenericAtttributeList ::
  "parms \<Rightarrow> GU_Detail \<Rightarrow> Node \<Rightarrow> AttributeDetail list \<times> int \<times> Node"
where
  "constructGenericAtttributeList P ptGeo st = attributeLoop ptGeo 1 (attrList P) ([], - 1, st)"

text \<open>
  \<^verbatim>\<open>transferAttributes\<close> (lines 1290--1310): after the threaded transfer, which fills
  the grids of the entries, every entry becomes a primitive with the given transform.
\<close>

definition transferAttributes :: "AttributeDetail list \<Rightarrow> Transform \<Rightarrow> Node \<Rightarrow> Node" where
  "transferAttributes pointAttributes xform st =
     fold (\<lambda>attrDetail. createVdbPrimitive (AttributePrim attrDetail xform)) pointAttributes st"

text \<open>
  \<^verbatim>\<open>evalStringInst("attributeGridName#", &i, ...)\<close>. The cook asks for instances
  of the list only; for any other \<open>i\<close> the string is taken to be empty.
\<close>

definition attributeGridName :: "parms \<Rightarrow> int \<Rightarrow> string" where
  "attributeGridName P i =
     (if 1 \<le> i \<and> i \<le> int (length (attrList P))
      then fst (snd (attrList P ! nat (i - 1))) else [])"

definition convertWithAttributes ::
  "Env \<Rightarrow> parms \<Rightarrow> Grid \<Rightarrow> ParticleList \<Rightarrow> GU_Detail \<Rightarrow> Node \<Rightarrow> Grid \<times> Node"
where
  "convertWithAttributes E P outputGrid paList ptGeo st =
     (let c = rasterCall P True outputGrid paList;
          r = particlesToLevelSet E c;
          outputGrid' = outputGrid\<lparr>voxels := rrVoxels r\<rparr>;
          closestPtnIdxGrid = attributeGrid r;
          st1 = warnIgnored r (called (Rasterize c) st)
      in
        if wasInterrupted E 1 then (outputGrid', st1)
        else if length (attrList P) > 0 then
          (case constructGenericAtttributeList P ptGeo st1 of
             (pointAttributes, closestPointIndexInstance, st2) \<Rightarrow>
               (let st3 = transferAttributes pointAttributes (transform outputGrid') st2
                in if closestPointIndexInstance > - 1 then
                     (let gridNameStr = attributeGridName P closestPointIndexInstance;
                          gridNameStr' = (if length gridNameStr = 0 then ''point_list_index''
                                          else gridNameStr)
                      in (outputGrid', createVdbPrimitive (IndexPrim closestPtnIdxGrid gridNameStr') st3))
                   else (outputGrid', st3)))
        else (outputGrid', st1))"

subsection \<open>The cook (lines 803--1017)\<close>

text \<open>
  The second input: \<open>None\<close> when it is not connected; otherwise what
  \<^verbatim>\<open>matchGroup\<close> and the first step of the \<^verbatim>\<open>VdbPrimCIterator\<close> find for a
  group string, the first VDB primitive of the group or none.
\<close>

record RefGeo =
  firstVdbPrim :: "string \<Rightarrow> Grid option"

text \<open>C++ conversion of a real to \<^verbatim>\<open>int\<close>: truncation towards zero.\<close>

definition int_of_real :: "real \<Rightarrow> int" where
  "int_of_real x = (if 0 \<le> x then \<lfloor>x\<rfloor> else \<lceil>x\<rceil>)"

text \<open>
  Lines 855--897: the transform, the voxel size (narrowed to a float, line 865) and the
  background are taken from the reference primitive, and the grid to write into when
  merging. \<open>Inl\<close> is the early return of line 895.
\<close>

definition referenceStage ::
  "parms \<Rightarrow> RefGeo option \<Rightarrow> Transform \<Rightarrow> real \<Rightarrow> Node
     \<Rightarrow> Node + (Transform \<times> real \<times> Grid option \<times> Node)"
where
  "referenceStage P refGeo xform bg st =
     (case refGeo of
        None \<Rightarrow> Inr (xform, bg, None, st)
      | Some geo \<Rightarrow>
          (case firstVdbPrim geo (referencevdb P) of
             None \<Rightarrow> Inl (addError NoVdbPrimitives st)
           | Some refPrim \<Rightarrow>
               (let xform' = transform refPrim;
                    st1 = st\<lparr>mVoxelSize := float32 (fst (voxelSize xform'))\<rparr>;
                    isLevelSet = (getGridClass refPrim = GRID_LEVEL_SET);
                    matching = (isLevelSet \<and> gridType refPrim = VT_float);
                    bg' = (if matching then background refPrim else bg);
                    st2 = (if matching then addMessage MatchingReference st1 else st1)
                in
                  if merge P \<noteq> 0 then
                    (if isLevelSet then
                       (let outputGrid = deepCopyAsFloatGrid refPrim
                        in Inr (xform', bg', outputGrid,
                                if outputGrid = None then addWarning NotAFloatGrid st2 else st2))
                     else Inr (xform', bg', None, addWarning NotALevelSet st2))
                  else Inr (xform', bg', None, st2))))"

text \<open>
  Lines 943--990: the bounding mask. The point mask grid of the topology conversion is
  reused when there is one. The offset is a double, and so are the sums, differences and
  products of lines 961, 964, 974 and 975.
\<close>

definition buildMask ::
  "Env \<Rightarrow> parms \<Rightarrow> GU_Detail \<Rightarrow> bool \<Rightarrow> Transform \<Rightarrow> real \<Rightarrow> int \<Rightarrow> MaskGrid option
     \<Rightarrow> ParticleList \<Rightarrow> Node \<Rightarrow> ParticleList \<times> Node"
where
  "buildMask E P ptGeo doSphereConversion xform bg bandWidth pointMaskGrid paList st =
     (let radiusScale = radiusMult paList;
          offset = min (max (boundinglimit P) 0) 1;
          maxGrid0 = (FloatGrid_create bg)\<lparr>getGridClass := GRID_LEVEL_SET, transform := xform\<rparr>;
          minGrid0 = (FloatGrid_create bg)\<lparr>getGridClass := GRID_LEVEL_SET, transform := xform\<rparr>;
          st0 = called (CreateGrid bg) (called (CreateGrid bg) st)
      in
        case
          (if offset > 0 then
             (if doSphereConversion then
                (let pa1 = setRadiusMult (float64 (radiusScale * float64 (1 + offset))) paList in
                 case convert E P maxGrid0 pa1 st0 of (maxGrid, st1) \<Rightarrow>
                   (let pa2 = setRadiusMult (float64 (radiusScale * float64 (1 - offset))) pa1 in
                    case convert E P minGrid0 pa2 st1 of (minGrid, st2) \<Rightarrow>
                      (maxGrid, minGrid, pa2, st2)))
              else
                (case (case pointMaskGrid of
                         None \<Rightarrow> (GUvdbCreatePointMaskGrid E xform ptGeo,
                                  called (PointMask xform) st0)
                       | Some m \<Rightarrow> (m, st0)) of
                   (pm, st1) \<Rightarrow>
                     (let dx = real_of_int (min (dilation P) 1);
                          increase = \<lceil>float64 (dx * float64 (1 + offset))\<rceil>;
                          decrease = int_of_real (float64 (dx * float64 (1 - offset)));
                          maxGrid = topologyToLevelSet E pm bandWidth (closing P) increase
                                      (smoothing P);
                          st2 = called (TopologyToLevelSet pm bandWidth (closing P) increase
                                          (smoothing P)) st1;
                          minGrid = topologyToLevelSet E pm bandWidth (closing P) decrease
                                      (smoothing P);
                          st3 = called (TopologyToLevelSet pm bandWidth (closing P) decrease
                                          (smoothing P)) st2
                      in (maxGrid, minGrid, paList, st3))))
           else (maxGrid0, minGrid0, paList, st0))
        of (maxGrid, minGrid, paList', st') \<Rightarrow>
          (let fog = sdfToFogVolume (csgDifference maxGrid minGrid)
           in (paList', createVdbPrimitive (MaskPrim (fog\<lparr>getName := maskname P\<rparr>)) st')))"

text \<open>Lines 992--1009: the distance field and the fog volume are added to the output.\<close>

definition outputPrimary :: "parms \<Rightarrow> Grid \<Rightarrow> Node \<Rightarrow> Node" where
  "outputPrimary P outputGrid st =
     (let outputLevelSetGrid = (builddistance P \<noteq> 0);
          outputFogVolumeGrid = (buildfog P \<noteq> 0);
          named = outputGrid\<lparr>getName := distancename P\<rparr>;
          st1 = (if outputLevelSetGrid then createVdbPrimitive (DistancePrim named) st else st);
          current = (if outputLevelSetGrid then named else outputGrid)
      in
        if outputFogVolumeGrid
        then createVdbPrimitive (FogPrim ((sdfToFogVolume current)\<lparr>getName := fogname P\<rparr>)) st1
        else st1)"

text \<open>
  Lines 903--941: the grid to write into is created unless the reference stage has
  supplied one, and the particles are converted along the sphere path or the topology
  path. The result is the output grid, the point mask grid (topology path only) and the
  node.
\<close>

definition primaryConversion ::
  "Env \<Rightarrow> parms \<Rightarrow> GU_Detail \<Rightarrow> ParticleList \<Rightarrow> Transform \<Rightarrow> real \<Rightarrow> int \<Rightarrow> Grid option
     \<Rightarrow> Node \<Rightarrow> Grid \<times> MaskGrid option \<times> Node"
where
  "primaryConversion E P ptGeo paList xform bg bandWidth refGrid st =
     (let outputAttributeGrid = (int (length (attrList P)) > 0);
          created = (case refGrid of
                       None \<Rightarrow> (FloatGrid_create bg, called (CreateGrid bg) st)
                     | Some g \<Rightarrow> (g, st));
          outputGrid0 = (fst created)\<lparr>getGridClass := GRID_LEVEL_SET, transform := xform\<rparr>;
          st0 = snd created;
          doSphereConversion = (conversion P = 0)
      in
        if doSphereConversion then
          (let st1 = (if velocitytrails P \<noteq> 0 \<and> \<not> hasVelocity paList
                      then addWarning TrailsNeedVelocity st0 else st0)
           in case (if outputAttributeGrid
                    then convertWithAttributes E P outputGrid0 paList ptGeo st1
                    else convert E P outputGrid0 paList st1) of
                (g, st2) \<Rightarrow> (g, None, st2))
        else
          (let pm = GUvdbCreatePointMaskGrid E xform ptGeo;
               st1 = called (PointMask xform) st0;
               sdfGrid = topologyToLevelSet E pm bandWidth (closing P) (dilation P)
                           (smoothing P);
               st2 = called (TopologyToLevelSet pm bandWidth (closing P) (dilation P)
                               (smoothing P)) st1
           in (csgUnion outputGrid0 sdfGrid, Some pm, st2)))"

text \<open>
  Lines 901--1010: the conversion, the mask and the output, unless interrupted. The band
  width of line 916 is the ceiling of a quotient of two floats, itself a float.
\<close>

definition conversionStage ::
  "Env \<Rightarrow> parms \<Rightarrow> GU_Detail \<Rightarrow> ParticleList \<Rightarrow> Transform \<Rightarrow> real \<Rightarrow> Grid option \<Rightarrow> Node
     \<Rightarrow> Node"
where
  "conversionStage E P ptGeo paList xform bg refGrid st =
     (if wasInterrupted E 0 then st
      else
        (let outputMaskVolumeGrid = (buildmask P \<noteq> 0);
             doSphereConversion = (conversion P = 0);
             bandWidth = \<lceil>float32 (bg / mVoxelSize st)\<rceil>
         in
           case primaryConversion E P ptGeo paList xform bg bandWidth refGrid st
           of (outputGrid, pointMaskGrid, st3) \<Rightarrow>
             (let st4 = (if outputMaskVolumeGrid
                         then snd (buildMask E P ptGeo doSphereConversion xform bg bandWidth
                                     pointMaskGrid paList st3)
                         else st3)
              in outputPrimary P outputGrid st4)))"

text \<open>
  The cook. Line 819 narrows the evaluated voxel size to a float, and line 821 compares
  that float with the double literal \<^verbatim>\<open>1e-5\<close>, the double nearest to \<open>10\<^sup>-\<^sup>5\<close>. The
  background is a float: the narrowed world-space half-band, or the float product of the
  voxel size and the narrowed half-band in voxels (lines 844 and 846).
\<close>

definition cookVDBSop :: "Env \<Rightarrow> parms \<Rightarrow> GU_Detail \<Rightarrow> RefGeo option \<Rightarrow> Node" where
  "cookVDBSop E P ptGeo refGeo =
     (let st = newNode\<lparr>mVoxelSize := float32 (voxelsize P)\<rparr> in
      if mVoxelSize st < float64 (1 / 100000)
      then addError (VoxelSizeTooSmall (mVoxelSize st)) st
      else
        (let outputLevelSetGrid = (builddistance P \<noteq> 0);
             outputFogVolumeGrid = (buildfog P \<noteq> 0);
             outputAttributeGrid = (int (length (attrList P)) > 0)
         in
           if \<not> outputFogVolumeGrid \<and> \<not> outputLevelSetGrid \<and> \<not> outputAttributeGrid
           then addWarning NoOutputSelected st
           else
             (let paList = newParticleList ptGeo (particlescale P) (velocityscale P);
                  bg = (if useworldspace P \<noteq> 0 then float32 (halfband P)
                        else float32 (mVoxelSize st * float32 (halfbandvoxels P)));
                  xform = createLinearTransform (mVoxelSize st)
              in case referenceStage P refGeo xform bg st of
                   Inl st' \<Rightarrow> st'
                 | Inr (xform', bg', refGrid, st') \<Rightarrow>
                     conversionStage E P ptGeo paList xform' bg' refGrid st')))"

subsection \<open>Example inputs\<close>

text \<open>
  The defaults the parameters are declared with (lines 331--541), except for the voxel
  size, 0.125 in place of 0.1, so that every value is a binary fraction and a double.
\<close>

definition exampleParms :: parms where
  "exampleParms =
     \<lparr> voxelsize = 1 / 8, builddistance = 1, distancename = ''surface'',
       buildfog = 0, fogname = ''density'', buildmask = 0, maskname = ''boundingvolume'',
       boundinglimit = 1 / 4, referencevdb = [], merge = 0, useworldspace = 0,
       halfbandvoxels = 3, halfband = 1, conversion = 0, particlescale = 1,
       minradius = 3 / 2, velocitytrails = 0, velocityscale = 1, trailresolution = 1,
       attrList = [], dilation = 1, closing = 1, smoothing = 0 \<rparr>"

text \<open>
  An environment for examples: a rasterizer that leaves the target as it is and ignores
  no particle, a topology builder that answers an empty level set, an empty point mask,
  and no interruption.
\<close>

definition idleEnv :: Env where
  "idleEnv =
     \<lparr> particlesToLevelSet =
         (\<lambda>c. \<lparr> rrVoxels = voxels (rcGrid c), getMinCount = 0, getMaxCount = 0,
                 attributeGrid = \<lparr> idxTransform = transform (rcGrid c),
                                    idxVoxels = (\<lambda>x. None) \<rparr> \<rparr>),
       topologyToLevelSet =
         (\<lambda>m halfWidth closingSteps dilationSteps smoothingSteps.
            (FloatGrid_create (real_of_int halfWidth))
              \<lparr>getGridClass := GRID_LEVEL_SET, transform := maskTransform m\<rparr>),
       GUvdbCreatePointMaskGrid = (\<lambda>x g. \<lparr> maskTransform = x, maskActive = {} \<rparr>),
       wasInterrupted = (\<lambda>k. False) \<rparr>"

text \<open>Two points of radius 0.25 (a float), without velocity or
  further attributes; and the same points without a radius attribute.\<close>

definition twoPoints :: GU_Detail where
  "twoPoints =
     \<lparr> points = [(0, 0, 0), (1, 0, 0)], pscale = Some (\<lambda>n. 1 / 4), velocity = None,
       findPointAttribute = (\<lambda>name. None) \<rparr>"

definition barePoints :: GU_Detail where
  "barePoints = twoPoints\<lparr>pscale := None\<rparr>"

text \<open>The same points with a velocity and no radius attribute.\<close>

definition movingPoints :: GU_Detail where
  "movingPoints = barePoints\<lparr>velocity := Some (\<lambda>n. (1, 0, 0))\<rparr>"

text \<open>A second input whose first VDB primitive is a level set of doubles with voxel
  size 0.25 and background 0.5, and one whose first VDB primitive is such a level set
  of floats.\<close>

definition doubleLevelSet :: RefGeo where
  "doubleLevelSet =
     \<lparr> firstVdbPrim = (\<lambda>group.
         Some ((FloatGrid_create (1 / 2))
                 \<lparr>gridType := VT_double, getGridClass := GRID_LEVEL_SET,
                  transform := createLinearTransform (1 / 4)\<rparr>)) \<rparr>"

definition floatLevelSet :: RefGeo where
  "floatLevelSet =
     \<lparr> firstVdbPrim = (\<lambda>group.
         Some ((FloatGrid_create (1 / 2))
                 \<lparr>getGridClass := GRID_LEVEL_SET,
                  transform := createLinearTransform (1 / 4)\<rparr>)) \<rparr>"

text \<open>A second input without a VDB primitive.\<close>

definition emptySecondInput :: RefGeo where
  "emptySecondInput = \<lparr> firstVdbPrim = (\<lambda>group. None) \<rparr>"

text \<open>The two points with one more attribute, a single 32-bit float per point.\<close>

definition warmPoints :: GU_Detail where
  "warmPoints =
     twoPoints\<lparr>findPointAttribute :=
       (\<lambda>name. if name = ''temperature''
               then Some (Some \<lparr> getTypeInfo = GA_TYPE_VOID,
                                  getAIFTuple = Some \<lparr> getStorage = GA_STORE_REAL32,
                                                       getTupleSize = 1 \<rparr> \<rparr>)
               else None)\<rparr>"

subsection \<open>Observing the output\<close>

text \<open>The mask primitives of the output geometry, and the grid both limit surfaces of
  the mask start from (lines 949--955).\<close>

fun isMaskPrim :: "Prim \<Rightarrow> bool" where
  "isMaskPrim (MaskPrim g) = True"
| "isMaskPrim p = False"

definition masks :: "Node \<Rightarrow> Prim list" where
  "masks st = filter isMaskPrim (gdp st)"

text \<open>The index grid primitives of the output geometry, and their names.\<close>

fun isIndexPrim :: "Prim \<Rightarrow> bool" where
  "isIndexPrim (IndexPrim g n) = True"
| "isIndexPrim p = False"

definition indexPrims :: "Node \<Rightarrow> Prim list" where
  "indexPrims st = filter isIndexPrim (gdp st)"

fun indexName :: "Prim \<Rightarrow> string list" where
  "indexName (IndexPrim g n) = [n]"
| "indexName p = []"

definition indexNames :: "Node \<Rightarrow> string list" where
  "indexNames st = concat (map indexName (gdp st))"

text \<open>The distance and fog primitives of the output geometry.\<close>

fun isPrimaryPrim :: "Prim \<Rightarrow> bool" where
  "isPrimaryPrim (DistancePrim g) = True"
| "isPrimaryPrim (FogPrim g) = True"
| "isPrimaryPrim p = False"

definition primaryPrims :: "Node \<Rightarrow> Prim list" where
  "primaryPrims st = filter isPrimaryPrim (gdp st)"

text \<open>A node with further warnings in front of its own.\<close>

definition withWarnings :: "Diagnostic list \<Rightarrow> Node \<Rightarrow> Node" where
  "withWarnings w st = st\<lparr>warnings := w @ warnings st\<rparr>"

definition maskField :: "Transform \<Rightarrow> real \<Rightarrow> Grid" where
  "maskField x bg = (FloatGrid_create bg)\<lparr>getGridClass := GRID_LEVEL_SET, transform := x\<rparr>"

section \<open>Properties\<close>

subsection \<open>Rounding\<close>

lemma powr2_of_int: "(2::real) powr real_of_int k = 2 powi k"
  by (rule powr_real_of_int') simp_all

lemma floor_log2_bounds:
  assumes "0 < (x::real)"
  shows "2 powi \<lfloor>log 2 x\<rfloor> \<le> x" and "x < 2 powi (\<lfloor>log 2 x\<rfloor> + 1)"
  using floor_log_eq_powr_iff [of x 2 "\<lfloor>log 2 x\<rfloor>", unfolded powr2_of_int] assms
  by simp_all

lemma floor_log2_eq:
  assumes "0 < (x::real)" and "2 powi e \<le> x" and "x < 2 powi (e + 1)"
  shows "\<lfloor>log 2 x\<rfloor> = e"
  using floor_log_eq_powr_iff [of x 2 e, unfolded powr2_of_int] assms
  by simp

lemma round_even_error: "\<bar>real_of_int (round_even y) - y\<bar> \<le> 1 / 2"
  unfolding round_even_def Let_def by (auto simp add: abs_if) linarith+

lemma round_even_of_int [simp]: "round_even (real_of_int n) = n"
  by (simp add: round_even_def)

lemma round_even_nonneg: "0 \<le> y \<Longrightarrow> 0 \<le> round_even y"
  unfolding round_even_def Let_def by (auto simp add: zero_le_floor) 

lemma round_even_le: "y < real_of_int n + 1 / 2 \<Longrightarrow> round_even y \<le> n"
  using round_even_error [of y] by linarith

lemma rnd_zero [simp]: "rnd p emin 0 = 0"
  by (simp add: rnd_def)

lemma rnd_normal:
  assumes "x \<noteq> 0" and "2 powi e \<le> \<bar>x\<bar>" and "\<bar>x\<bar> < 2 powi (e + 1)" and "emin \<le> e"
  shows "rnd p emin x =
           sgn x * real_of_int (round_even (\<bar>x\<bar> / 2 powi (e - int p + 1))) * 2 powi (e - int p + 1)"
proof -
  from assms(1) have "0 < \<bar>x\<bar>" by simp
  from floor_log2_eq [OF this assms(2,3)] assms(1,4) show ?thesis
    by (simp add: rnd_def Let_def max_def)
qed

lemma rnd_nonneg: "0 \<le> x \<Longrightarrow> 0 \<le> rnd p emin x"
  by (auto simp add: rnd_def Let_def round_even_nonneg sgn_if intro!: mult_nonneg_nonneg)

lemma rnd_nonpos: "x \<le> 0 \<Longrightarrow> rnd p emin x \<le> 0"
proof (cases "x = 0")
  case True
  then show ?thesis by simp
next
  case False
  assume "x \<le> 0"
  with False have neg: "sgn x = - 1" by (simp add: sgn_if)
  let ?u = "(2::real) powi (max emin \<lfloor>log 2 \<bar>x\<bar>\<rfloor> - int p + 1)"
  have "0 \<le> \<bar>x\<bar> / ?u" by (simp add: zero_less_power_int less_imp_le)
  then have "0 \<le> real_of_int (round_even (\<bar>x\<bar> / ?u)) * ?u"
    by (intro mult_nonneg_nonneg) (simp_all add: round_even_nonneg zero_less_power_int less_imp_le)
  with False neg show ?thesis by (simp add: rnd_def Let_def)
qed


text \<open>A rounding in the normal range has a relative error of at most half a unit in
  the last place.\<close>

lemma rnd_rel_error:
  assumes "2 powi emin \<le> \<bar>x\<bar>"
  shows "\<bar>rnd p emin x - x\<bar> \<le> \<bar>x\<bar> / 2 ^ p"
proof -
  have xpos: "0 < \<bar>x\<bar>"
    using assms zero_less_power_int [of "2::real" emin] by linarith
  then have x0: "x \<noteq> 0" by simp
  let ?e = "\<lfloor>log 2 \<bar>x\<bar>\<rfloor>"
  let ?u = "(2::real) powi (?e - int p + 1)"
  have upos: "0 < ?u" by (simp add: zero_less_power_int)
  have lo: "2 powi ?e \<le> \<bar>x\<bar>" and hi: "\<bar>x\<bar> < 2 powi (?e + 1)"
    using floor_log2_bounds [OF xpos] by simp_all
  have emin: "emin \<le> ?e"
  proof (rule ccontr)
    assume "\<not> emin \<le> ?e"
    then have "?e + 1 \<le> emin" by simp
    then have "(2::real) powi (?e + 1) \<le> 2 powi emin" by (intro power_int_increasing) simp_all
    with hi assms show False by linarith
  qed
  let ?r = "real_of_int (round_even (\<bar>x\<bar> / ?u))"
  have val: "rnd p emin x = sgn x * ?r * ?u"
    by (rule rnd_normal [OF x0 lo hi emin])
  have "rnd p emin x - x = sgn x * (?r * ?u - \<bar>x\<bar>)"
    unfolding val by (simp add: algebra_simps sgn_if abs_if)
  then have "\<bar>rnd p emin x - x\<bar> = \<bar>?r * ?u - \<bar>x\<bar>\<bar>"
    using x0 by (simp add: abs_mult abs_sgn_eq)
  also have "?r * ?u - \<bar>x\<bar> = (?r - \<bar>x\<bar> / ?u) * ?u"
    using upos by (simp add: algebra_simps)
  also have "\<bar>(?r - \<bar>x\<bar> / ?u) * ?u\<bar> = \<bar>?r - \<bar>x\<bar> / ?u\<bar> * ?u"
    using upos by (simp add: abs_mult)
  also have "\<dots> \<le> 1 / 2 * ?u"
    using round_even_error [of "\<bar>x\<bar> / ?u"] upos by (intro mult_right_mono) simp_all
  also have "1 / 2 * ?u = 2 powi ?e / 2 ^ p"
  proof -
    have "(2::real) powi (?e - int p + 1) = 2 powi ?e * 2 powi (- int p) * 2 powi 1"
      by (simp add: power_int_add power_int_diff power_int_minus field_simps)
    then show ?thesis by (simp add: power_int_minus field_simps)
  qed
  also have "\<dots> \<le> \<bar>x\<bar> / 2 ^ p"
    using lo by (simp add: divide_right_mono)
  finally show ?thesis .
qed

lemma float64_rel_error:
  "2 powi (- 1022) \<le> \<bar>x\<bar> \<Longrightarrow> \<bar>float64 x - x\<bar> \<le> \<bar>x\<bar> / 2 ^ 53"
  unfolding float64_def by (rule rnd_rel_error)

text \<open>A double product followed by the double quotient, and the other way round.\<close>

lemma round_trip_mult_div:
  assumes v: "v \<noteq> 0"
    and n1: "2 powi (- 1022) \<le> \<bar>x * v\<bar>"
    and n2: "2 powi (- 1022) \<le> \<bar>float64 (x * v) / v\<bar>"
  shows "\<bar>float64 (float64 (x * v) / v) - x\<bar> \<le> (2 / 2 ^ 53 + 1 / 2 ^ 106) * \<bar>x\<bar>"
proof -
  let ?w = "float64 (x * v)"
  let ?eps = "1 / (2::real) ^ 53"
  have vpos: "0 < \<bar>v\<bar>" using v by simp
  have e1: "\<bar>?w - x * v\<bar> \<le> \<bar>x * v\<bar> * ?eps"
    using float64_rel_error [OF n1] by simp
  have "?w / v - x = (?w - x * v) / v" using v by (simp add: field_simps)
  then have "\<bar>?w / v - x\<bar> = \<bar>?w - x * v\<bar> / \<bar>v\<bar>" by (simp add: abs_divide)
  also have "\<dots> \<le> (\<bar>x * v\<bar> * ?eps) / \<bar>v\<bar>"
    using e1 vpos by (intro divide_right_mono) simp_all
  also have "\<dots> = \<bar>x\<bar> * ?eps" using v by (simp add: abs_mult)
  finally have d1: "\<bar>?w / v - x\<bar> \<le> \<bar>x\<bar> * ?eps" .
  then have size: "\<bar>?w / v\<bar> \<le> \<bar>x\<bar> + \<bar>x\<bar> * ?eps" by linarith
  have "\<bar>float64 (?w / v) - ?w / v\<bar> \<le> \<bar>?w / v\<bar> * ?eps"
    using float64_rel_error [OF n2] by simp
  also have "\<dots> \<le> (\<bar>x\<bar> + \<bar>x\<bar> * ?eps) * ?eps"
    using size by (intro mult_right_mono) simp_all
  finally have d2: "\<bar>float64 (?w / v) - ?w / v\<bar> \<le> (\<bar>x\<bar> + \<bar>x\<bar> * ?eps) * ?eps" .
  have "\<bar>float64 (?w / v) - x\<bar> \<le> \<bar>float64 (?w / v) - ?w / v\<bar> + \<bar>?w / v - x\<bar>"
    by linarith
  also have "\<dots> \<le> (\<bar>x\<bar> + \<bar>x\<bar> * ?eps) * ?eps + \<bar>x\<bar> * ?eps"
    using d1 d2 by linarith
  also have "\<dots> = (2 / 2 ^ 53 + 1 / 2 ^ 106) * \<bar>x\<bar>"
    by (simp add: algebra_simps)
  finally show ?thesis .
qed

lemma round_trip_div_mult:
  assumes v: "v \<noteq> 0"
    and n1: "2 powi (- 1022) \<le> \<bar>x / v\<bar>"
    and n2: "2 powi (- 1022) \<le> \<bar>float64 (x / v) * v\<bar>"
  shows "\<bar>float64 (float64 (x / v) * v) - x\<bar> \<le> (2 / 2 ^ 53 + 1 / 2 ^ 106) * \<bar>x\<bar>"
proof -
  let ?w = "float64 (x / v)"
  let ?eps = "1 / (2::real) ^ 53"
  have vpos: "0 < \<bar>v\<bar>" using v by simp
  have e1: "\<bar>?w - x / v\<bar> \<le> \<bar>x / v\<bar> * ?eps"
    using float64_rel_error [OF n1] by simp
  have "?w * v - x = (?w - x / v) * v" using v by (simp add: field_simps)
  then have "\<bar>?w * v - x\<bar> = \<bar>?w - x / v\<bar> * \<bar>v\<bar>" by (simp add: abs_mult)
  also have "\<dots> \<le> (\<bar>x / v\<bar> * ?eps) * \<bar>v\<bar>"
    using e1 vpos by (intro mult_right_mono) simp_all
  also have "\<dots> = \<bar>x\<bar> * ?eps" using v by (simp add: abs_divide)
  finally have d1: "\<bar>?w * v - x\<bar> \<le> \<bar>x\<bar> * ?eps" .
  then have size: "\<bar>?w * v\<bar> \<le> \<bar>x\<bar> + \<bar>x\<bar> * ?eps" by linarith
  have "\<bar>float64 (?w * v) - ?w * v\<bar> \<le> \<bar>?w * v\<bar> * ?eps"
    using float64_rel_error [OF n2] by simp
  also have "\<dots> \<le> (\<bar>x\<bar> + \<bar>x\<bar> * ?eps) * ?eps"
    using size by (intro mult_right_mono) simp_all
  finally have d2: "\<bar>float64 (?w * v) - ?w * v\<bar> \<le> (\<bar>x\<bar> + \<bar>x\<bar> * ?eps) * ?eps" .
  have "\<bar>float64 (?w * v) - x\<bar> \<le> \<bar>float64 (?w * v) - ?w * v\<bar> + \<bar>?w * v - x\<bar>"
    by linarith
  also have "\<dots> \<le> (\<bar>x\<bar> + \<bar>x\<bar> * ?eps) * ?eps + \<bar>x\<bar> * ?eps"
    using d1 d2 by linarith
  also have "\<dots> = (2 / 2 ^ 53 + 1 / 2 ^ 106) * \<bar>x\<bar>"
    by (simp add: algebra_simps)
  finally show ?thesis .
qed

lemma float32_below_limit:
  assumes "v < 1 / 100000"
  shows "float32 v < 1 / 100000"
proof (cases "v \<le> 0")
  case True
  from rnd_nonpos [OF this, of 24 "- 126"] show ?thesis by (simp add: float32_def)
next
  case False
  then have pos: "0 < v" by simp
  let ?f = "\<lfloor>log 2 v\<rfloor>"
  let ?e = "max (- 126) ?f"
  let ?u = "(2::real) powi (?e - 23)"
  let ?y = "v / ?u"
  have upos: "0 < ?u" by (simp add: zero_less_power_int)
  have f: "?f \<le> - 17"
  proof (rule ccontr)
    assume "\<not> ?f \<le> - 17"
    then have "- 16 \<le> ?f" by simp
    then have "(2::real) powi (- 16) \<le> 2 powi ?f" by (intro power_int_increasing) simp_all
    with floor_log2_bounds(1) [OF pos] assms show False by simp
  qed
  then have e: "?e \<le> - 17" by simp
  have "?f + 1 \<le> ?e + 1" by simp
  then have "(2::real) powi (?f + 1) \<le> 2 powi (?e + 1)" by (intro power_int_increasing) simp_all
  with floor_log2_bounds(2) [OF pos] have vlt: "v < 2 powi (?e + 1)" by simp
  have val: "float32 v = real_of_int (round_even ?y) * ?u"
    using pos by (simp add: float32_def rnd_def Let_def)
  show ?thesis
  proof (cases "?e = - 17")
    case True
    then have u: "?u = 1 / 1099511627776" by simp
    have "?y = v * 1099511627776" unfolding u by simp
    with assms have "?y < real_of_int 10995116 + 1 / 2" by linarith
    from round_even_le [OF this] have "real_of_int (round_even ?y) \<le> 10995116" by simp
    then have "real_of_int (round_even ?y) * ?u \<le> 10995116 * ?u"
      using upos by (intro mult_right_mono) simp_all
    also have "\<dots> = 10995116 / 1099511627776" unfolding u by simp
    also have "\<dots> < 1 / 100000" by simp
    finally show ?thesis unfolding val .
  next
    case False
    with e have e': "?e + 1 \<le> - 17" by linarith
    have split: "(2::real) powi (?e + 1) = ?u * 16777216"
    proof -
      have a: "(2::real) powi ((?e - 23) + 24) = 2 powi (?e - 23) * 2 powi 24"
        by (rule power_int_add) simp
      have b: "(?e - 23) + 24 = ?e + 1" by simp
      have c: "(2::real) powi 24 = 16777216" by simp
      show ?thesis using a unfolding b c .
    qed
    with vlt upos have "?y < 16777216" by (simp add: divide_less_eq mult.commute)
    then have "?y < real_of_int 16777216 + 1 / 2" by linarith
    from round_even_le [OF this] have "real_of_int (round_even ?y) \<le> 16777216" by simp
    then have "real_of_int (round_even ?y) * ?u \<le> 16777216 * ?u"
      using upos by (intro mult_right_mono) simp_all
    also have "\<dots> = 2 powi (?e + 1)" using split by simp
    also from e' have "\<dots> \<le> 2 powi (- 17)" by (intro power_int_increasing) simp_all
    also have "\<dots> < 1 / 100000" by simp
    finally show ?thesis unfolding val .
  qed
qed

text \<open>The double literal \<^verbatim>\<open>1e-5\<close> lies above \<open>10\<^sup>-\<^sup>5\<close>, and every float the
  narrowing gives for a value below \<open>10\<^sup>-\<^sup>5\<close> lies below it.\<close>

lemma float64_voxel_limit: "float64 (1 / 100000) = 5902958103587057 / 590295810358705651712"
  unfolding float64_def
  by (subst rnd_normal [where e = "- 17"]) (simp_all add: round_even_def)

lemma float32_below_literal:
  "v < 1 / 100000 \<Longrightarrow> float32 v < float64 (1 / 100000)"
  using float32_below_limit [of v] by (simp add: float64_voxel_limit)

text \<open>The float nearest to \<open>10\<^sup>-\<^sup>5\<close>, and to the double literal, lies below the literal
  as well.\<close>

lemma float32_hundred_thousandth: "float32 (1 / 100000) = 2748779 / 274877906944"
  unfolding float32_def
  by (subst rnd_normal [where e = "- 17"]) (simp_all add: round_even_def)

lemma float32_voxel_limit:
  "float32 (5902958103587057 / 590295810358705651712) = 2748779 / 274877906944"
  unfolding float32_def
  by (subst rnd_normal [where e = "- 17"]) (simp_all add: round_even_def)

lemma float32_at_literal:
  "float32 (1 / 100000) < float64 (1 / 100000)"
  "float32 (float64 (1 / 100000)) < float64 (1 / 100000)"
  by (simp_all add: float64_voxel_limit float32_hundred_thousandth float32_voxel_limit)

text \<open>Binary fractions of the examples, which are floats and doubles.\<close>

lemma float32_tiny [simp]: "float32 (1 / 131072) = 1 / 131072"
  unfolding float32_def
  by (subst rnd_normal [where e = "- 17"]) (simp_all add: round_even_def)

lemma float32_eighth [simp]: "float32 (1 / 8) = 1 / 8"
  unfolding float32_def
  by (subst rnd_normal [where e = "- 3"]) (simp_all add: round_even_def)

lemma float32_quarter [simp]: "float32 (1 / 4) = 1 / 4"
  unfolding float32_def
  by (subst rnd_normal [where e = "- 2"]) (simp_all add: round_even_def)

lemma float32_three_eighths [simp]: "float32 (3 / 8) = 3 / 8"
  unfolding float32_def
  by (subst rnd_normal [where e = "- 2"]) (simp_all add: round_even_def)

lemma float32_half [simp]: "float32 (1 / 2) = 1 / 2"
  unfolding float32_def
  by (subst rnd_normal [where e = "- 1"]) (simp_all add: round_even_def)

lemma float32_one [simp]: "float32 1 = 1"
  unfolding float32_def
  by (subst rnd_normal [where e = "0"]) (simp_all add: round_even_def)

lemma float32_two [simp]: "float32 2 = 2"
  unfolding float32_def
  by (subst rnd_normal [where e = "1"]) (simp_all add: round_even_def)

lemma float32_three [simp]: "float32 3 = 3"
  unfolding float32_def
  by (subst rnd_normal [where e = "1"]) (simp_all add: round_even_def)

lemma float64_half [simp]: "float64 (1 / 2) = 1 / 2"
  unfolding float64_def
  by (subst rnd_normal [where e = "- 1"]) (simp_all add: round_even_def)

lemma float64_three_quarters [simp]: "float64 (3 / 4) = 3 / 4"
  unfolding float64_def
  by (subst rnd_normal [where e = "- 1"]) (simp_all add: round_even_def)

lemma float64_one [simp]: "float64 1 = 1"
  unfolding float64_def
  by (subst rnd_normal [where e = "0"]) (simp_all add: round_even_def)

lemma float64_five_quarters [simp]: "float64 (5 / 4) = 5 / 4"
  unfolding float64_def
  by (subst rnd_normal [where e = "0"]) (simp_all add: round_even_def)

lemma float64_three_halves [simp]: "float64 (3 / 2) = 3 / 2"
  unfolding float64_def
  by (subst rnd_normal [where e = "0"]) (simp_all add: round_even_def)


lemma float64_three_eighths [simp]: "float64 (3 / 8) = 3 / 8"
  unfolding float64_def
  by (subst rnd_normal [where e = "- 2"]) (simp_all add: round_even_def)

lemma float64_three [simp]: "float64 3 = 3"
  unfolding float64_def
  by (subst rnd_normal [where e = "1"]) (simp_all add: round_even_def)

lemma float64_eight [simp]: "float64 8 = 8"
  unfolding float64_def
  by (subst rnd_normal [where e = "3"]) (simp_all add: round_even_def)

text \<open>The doubles nearest to \<open>1 + 2\<^sup>-\<^sup>6\<^sup>0\<close> and \<open>1 - 2\<^sup>-\<^sup>6\<^sup>0\<close>.\<close>

lemma float64_above_one: "float64 (1152921504606846977 / 1152921504606846976) = 1"
  unfolding float64_def
  by (subst rnd_normal [where e = "0"]) (simp_all add: round_even_def)

lemma float64_below_one: "float64 (1152921504606846975 / 1152921504606846976) = 1"
  unfolding float64_def
  by (subst rnd_normal [where e = "- 1"]) (simp_all add: round_even_def)

text \<open>The float \<^verbatim>\<open>0.1f\<close>, the double \<^verbatim>\<open>1.3\<close>, their double product, and the double
  quotient of that product by \<^verbatim>\<open>0.1f\<close>.\<close>

lemma float32_tenth: "float32 (1 / 10) = 13421773 / 134217728"
  unfolding float32_def
  by (subst rnd_normal [where e = "- 4"]) (simp_all add: round_even_def)

lemma float64_thirteen_tenths: "float64 (13 / 10) = 5854679515581645 / 4503599627370496"
  unfolding float64_def
  by (subst rnd_normal [where e = "0"]) (simp_all add: round_even_def)

lemma float64_product:
  "float64 (78580179445886802156585 / 604462909807314587353088)
     = 4683743682258535 / 36028797018963968"
  unfolding float64_def
  by (subst rnd_normal [where e = "- 3"]) (simp_all add: round_even_def)

lemma float64_quotient:
  "float64 (4683743682258535 / 3602879755583488) = 2927339757790823 / 2251799813685248"
  unfolding float64_def
  by (subst rnd_normal [where e = "0"]) (simp_all add: round_even_def)

subsection \<open>The three ways through the cook\<close>

lemma cook_small:
  "float32 (voxelsize P) < float64 (1 / 100000) \<Longrightarrow>
   cookVDBSop E P ptGeo refGeo =
     addError (VoxelSizeTooSmall (float32 (voxelsize P)))
       (newNode\<lparr>mVoxelSize := float32 (voxelsize P)\<rparr>)"
  by (simp add: cookVDBSop_def Let_def)

text \<open>At the least voxel size the parameter admits, the double \<^verbatim>\<open>1e-5\<close>, the cook stops
  with the error.\<close>

lemma cook_at_literal:
  assumes "voxelsize P = float64 (1 / 100000)"
  shows "cookVDBSop E P ptGeo refGeo =
           addError (VoxelSizeTooSmall (2748779 / 274877906944))
             (newNode\<lparr>mVoxelSize := 2748779 / 274877906944\<rparr>)"
proof -
  have v: "float32 (voxelsize P) = 2748779 / 274877906944"
    unfolding assms float64_voxel_limit by (rule float32_voxel_limit)
  have "float32 (voxelsize P) < float64 (1 / 100000)"
    unfolding assms by (rule float32_at_literal(2))
  from cook_small [OF this] show ?thesis unfolding v .
qed

lemma cook_no_output:
  "\<not> float32 (voxelsize P) < float64 (1 / 100000) \<Longrightarrow> builddistance P = 0 \<Longrightarrow> buildfog P = 0 \<Longrightarrow>
   attrList P = [] \<Longrightarrow>
   cookVDBSop E P ptGeo refGeo =
     addWarning NoOutputSelected (newNode\<lparr>mVoxelSize := float32 (voxelsize P)\<rparr>)"
  by (simp add: cookVDBSop_def Let_def)

lemma cook_main:
  "\<not> float32 (voxelsize P) < float64 (1 / 100000) \<Longrightarrow>
   builddistance P \<noteq> 0 \<or> buildfog P \<noteq> 0 \<or> attrList P \<noteq> [] \<Longrightarrow>
   cookVDBSop E P ptGeo refGeo =
     (case referenceStage P refGeo (createLinearTransform (float32 (voxelsize P)))
             (if useworldspace P \<noteq> 0 then float32 (halfband P)
              else float32 (float32 (voxelsize P) * float32 (halfbandvoxels P)))
             (newNode\<lparr>mVoxelSize := float32 (voxelsize P)\<rparr>) of
        Inl st' \<Rightarrow> st'
      | Inr (xform', bg', refGrid, st') \<Rightarrow>
          conversionStage E P ptGeo (newParticleList ptGeo (particlescale P) (velocityscale P))
            xform' bg' refGrid st')"
  by (auto simp add: cookVDBSop_def Let_def)

text \<open>The definitions to unfold when the cook is evaluated on an example.\<close>

lemmas eval_defs =
  cookVDBSop_def newNode_def exampleParms_def referenceStage_def conversionStage_def
  primaryConversion_def
  idleEnv_def twoPoints_def barePoints_def convert_def rasterCall_def rasterJob_def newParticleList_def
  createLinearTransform_def hasRadius_def hasVelocity_def radiusMult_def setRadiusMult_def
  called_def warnIgnored_def ignoredParticles_def addWarning_def addError_def addMessage_def
  outputPrimary_def createVdbPrimitive_def FloatGrid_create_def buildMask_def
  sdfToFogVolume_def csgDifference_def csgUnion_def getValue_def int_of_real_def
  convertWithAttributes_def constructGenericAtttributeList_def attributeStep_def
  transferAttributes_def attributeGridName_def addAttributeDetails_def deepCopyAsFloatGrid_def
  Let_def

subsection \<open>Fatal voxel size\<close>

text \<open>
  Claim C10. Whenever the evaluated voxel size is strictly below \<open>10\<^sup>-\<^sup>5\<close>, the cook
  records the error "The voxel size (...) is too small." and returns at once: the node
  holds that one error, which carries the voxel size as narrowed to a float, and nothing
  else; no grid has been created, no external tool has been called, and the output
  geometry is empty.
\<close>

theorem voxel_size_too_small_aborts:
  assumes "voxelsize P < 1 / 100000"
  shows "cookVDBSop E P ptGeo refGeo =
           \<lparr> errors = [VoxelSizeTooSmall (float32 (voxelsize P))], warnings = [],
             messages = [], gdp = [], calls = [], mVoxelSize = float32 (voxelsize P) \<rparr>"
  using float32_below_literal [OF assms] by (simp add: cook_small newNode_def addError_def)

theorem voxel_size_too_small_aborts_witness:
  "voxelsize (exampleParms\<lparr>voxelsize := 1 / 131072\<rparr>) < 1 / 100000 \<and>
   cookVDBSop idleEnv (exampleParms\<lparr>voxelsize := 1 / 131072\<rparr>) twoPoints None =
     \<lparr> errors = [VoxelSizeTooSmall (1 / 131072)], warnings = [], messages = [],
       gdp = [], calls = [], mVoxelSize = 1 / 131072 \<rparr>"
  using voxel_size_too_small_aborts
          [of "exampleParms\<lparr>voxelsize := 1 / 131072\<rparr>" idleEnv twoPoints None]
  by (simp add: exampleParms_def)

subsection \<open>No output selected\<close>

text \<open>
  Claim C5. If neither the distance field, nor the fog volume, nor any attribute grid is
  requested, the cook returns without output: the output geometry is empty, no grid has
  been created and no rasterization or other external tool has run. Unless the voxel
  size check before it has already stopped the cook (the voxel size, narrowed to a
  float, lies below the double literal \<^verbatim>\<open>1e-5\<close>), the diagnostic is the single warning
  "No output selected", and there is no error.
\<close>

theorem no_output_selected_aborts:
  assumes "builddistance P = 0" and "buildfog P = 0" and "attrList P = []"
  shows "gdp (cookVDBSop E P ptGeo refGeo) = [] \<and>
         calls (cookVDBSop E P ptGeo refGeo) = [] \<and>
         (\<not> float32 (voxelsize P) < float64 (1 / 100000) \<longrightarrow>
            warnings (cookVDBSop E P ptGeo refGeo) = [NoOutputSelected] \<and>
            errors (cookVDBSop E P ptGeo refGeo) = [] \<and>
            messages (cookVDBSop E P ptGeo refGeo) = [])"
  using assms
  by (cases "float32 (voxelsize P) < float64 (1 / 100000)")
     (simp_all add: cook_small cook_no_output newNode_def addError_def addWarning_def)

theorem no_output_selected_aborts_witness:
  "builddistance (exampleParms\<lparr>builddistance := 0\<rparr>) = 0 \<and>
   buildfog (exampleParms\<lparr>builddistance := 0\<rparr>) = 0 \<and>
   attrList (exampleParms\<lparr>builddistance := 0\<rparr>) = [] \<and>
   \<not> float32 (voxelsize (exampleParms\<lparr>builddistance := 0\<rparr>)) < float64 (1 / 100000) \<and>
   gdp (cookVDBSop idleEnv (exampleParms\<lparr>builddistance := 0\<rparr>) twoPoints None) = [] \<and>
   calls (cookVDBSop idleEnv (exampleParms\<lparr>builddistance := 0\<rparr>) twoPoints None) = [] \<and>
   warnings (cookVDBSop idleEnv (exampleParms\<lparr>builddistance := 0\<rparr>) twoPoints None)
     = [NoOutputSelected] \<and>
   errors (cookVDBSop idleEnv (exampleParms\<lparr>builddistance := 0\<rparr>) twoPoints None) = []"
  using no_output_selected_aborts
          [of "exampleParms\<lparr>builddistance := 0\<rparr>" idleEnv twoPoints None]
  by (simp add: exampleParms_def float64_voxel_limit)

subsection \<open>What each step leaves alone\<close>

lemma masks_simps [simp]:
  "masks (addWarning d st) = masks st"
  "masks (addError d st) = masks st"
  "masks (addMessage d st) = masks st"
  "masks (called c st) = masks st"
  "masks (warnIgnored r st) = masks st"
  "masks (createVdbPrimitive p st) = masks st @ (if isMaskPrim p then [p] else [])"
  by (simp_all add: masks_def addWarning_def addError_def addMessage_def called_def
      warnIgnored_def createVdbPrimitive_def)

lemma calls_simps [simp]:
  "calls (addWarning d st) = calls st"
  "calls (addError d st) = calls st"
  "calls (addMessage d st) = calls st"
  "calls (called c st) = calls st @ [c]"
  "calls (warnIgnored r st) = calls st"
  "calls (createVdbPrimitive p st) = calls st"
  by (simp_all add: addWarning_def addError_def addMessage_def called_def
      warnIgnored_def createVdbPrimitive_def)

lemma convert_masks [simp]: "masks (snd (convert E P g pa st)) = masks st"
  by (simp add: convert_def Let_def)

lemma convert_calls [simp]:
  "calls (snd (convert E P g pa st)) = calls st @ [Rasterize (rasterCall P False g pa)]"
  by (simp add: convert_def Let_def)

lemma attributeStep_keeps:
  "attributeStep geo i inst (ds, k, st) = (ds', k', st') \<Longrightarrow>
   gdp st' = gdp st \<and> calls st' = calls st"
  by (auto simp add: attributeStep_def Let_def addWarning_def
      split: prod.splits if_splits option.splits)

lemma attributeLoop_keeps:
  "attributeLoop geo i insts (ds, k, st) = (ds', k', st') \<Longrightarrow>
   gdp st' = gdp st \<and> calls st' = calls st"
proof (induction insts arbitrary: i ds k st)
  case Nil
  then show ?case by simp
next
  case (Cons inst insts)
  obtain ds1 k1 st1 where step: "attributeStep geo i inst (ds, k, st) = (ds1, k1, st1)"
    by (cases "attributeStep geo i inst (ds, k, st)") auto
  from Cons.prems step have "attributeLoop geo (i + 1) insts (ds1, k1, st1) = (ds', k', st')"
    by simp
  from Cons.IH [OF this] attributeStep_keeps [OF step] show ?case by simp
qed

lemma transferAttributes_gdp:
  "gdp (transferAttributes ds x st) = gdp st @ map (\<lambda>d. AttributePrim d x) ds"
  unfolding transferAttributes_def
  by (induction ds arbitrary: st) (simp_all add: createVdbPrimitive_def)

lemma transferAttributes_calls [simp]:
  "calls (transferAttributes ds x st) = calls st"
  unfolding transferAttributes_def
  by (induction ds arbitrary: st) simp_all

lemma transferAttributes_masks [simp]:
  "masks (transferAttributes ds x st) = masks st"
  by (simp add: masks_def transferAttributes_gdp filter_empty_conv)

lemma constructGenericAtttributeList_keeps:
  "constructGenericAtttributeList P geo st = (ds, k, st') \<Longrightarrow>
   gdp st' = gdp st \<and> calls st' = calls st"
  unfolding constructGenericAtttributeList_def by (rule attributeLoop_keeps)

lemma convertWithAttributes_masks [simp]:
  "masks (snd (convertWithAttributes E P g pa geo st)) = masks st"
proof -
  obtain ds k st' where c: "constructGenericAtttributeList P geo
      (warnIgnored (particlesToLevelSet E (rasterCall P True g pa))
         (called (Rasterize (rasterCall P True g pa)) st)) = (ds, k, st')"
    by (metis prod_cases3)
  from constructGenericAtttributeList_keeps [OF c] have "masks st' = masks st"
    by (simp add: masks_def warnIgnored_def called_def addWarning_def)
  with c show ?thesis
    by (simp add: convertWithAttributes_def Let_def)
qed

lemma convertWithAttributes_calls [simp]:
  "calls (snd (convertWithAttributes E P g pa geo st)) =
     calls st @ [Rasterize (rasterCall P True g pa)]"
proof -
  obtain ds k st' where c: "constructGenericAtttributeList P geo
      (warnIgnored (particlesToLevelSet E (rasterCall P True g pa))
         (called (Rasterize (rasterCall P True g pa)) st)) = (ds, k, st')"
    by (metis prod_cases3)
  from constructGenericAtttributeList_keeps [OF c]
  have "calls st' = calls st @ [Rasterize (rasterCall P True g pa)]"
    by simp
  with c show ?thesis
    by (simp add: convertWithAttributes_def Let_def)
qed

lemma outputPrimary_masks [simp]: "masks (outputPrimary P g st) = masks st"
  by (simp add: outputPrimary_def Let_def)

lemma outputPrimary_calls [simp]: "calls (outputPrimary P g st) = calls st"
  by (simp add: outputPrimary_def Let_def)



subsection \<open>The mask builder\<close>

lemma buildMask_zero:
  assumes "min (max (boundinglimit P) 0) 1 = 0"
  shows "buildMask E P geo sph x bg bw pm pa st =
           (pa, createVdbPrimitive
                  (MaskPrim ((sdfToFogVolume (csgDifference (maskField x bg) (maskField x bg)))
                               \<lparr>getName := maskname P\<rparr>))
                  (called (CreateGrid bg) (called (CreateGrid bg) st)))"
  using assms by (simp add: buildMask_def Let_def maskField_def)

lemma buildMask_masks:
  "\<exists>m. masks (snd (buildMask E P geo sph x bg bw pm pa st)) = masks st @ [MaskPrim m]"
  by (simp add: buildMask_def Let_def case_prod_beta split: option.splits)

lemma buildMask_calls_spheres:
  assumes "0 < min (max (boundinglimit P) 0) 1"
  shows "calls (snd (buildMask E P geo True x bg bw pm pa st)) =
           calls st @
           [CreateGrid bg, CreateGrid bg,
            Rasterize (rasterCall P False (maskField x bg)
               (setRadiusMult (float64 (radiusMult pa * float64 (1 + min (max (boundinglimit P) 0) 1))) pa)),
            Rasterize (rasterCall P False (maskField x bg)
               (setRadiusMult (float64 (radiusMult pa * float64 (1 - min (max (boundinglimit P) 0) 1)))
                  (setRadiusMult (float64 (radiusMult pa * float64 (1 + min (max (boundinglimit P) 0) 1))) pa)))]"
proof -
  let ?off = "min (max (boundinglimit P) 0) 1"
  let ?pa1 = "setRadiusMult (float64 (radiusMult pa * float64 (1 + ?off))) pa"
  let ?pa2 = "setRadiusMult (float64 (radiusMult pa * float64 (1 - ?off))) ?pa1"
  let ?st0 = "called (CreateGrid bg) (called (CreateGrid bg) st)"
  obtain g1 s1 where c1: "convert E P (maskField x bg) ?pa1 ?st0 = (g1, s1)"
    by (cases "convert E P (maskField x bg) ?pa1 ?st0") auto
  obtain g2 s2 where c2: "convert E P (maskField x bg) ?pa2 s1 = (g2, s2)"
    by (cases "convert E P (maskField x bg) ?pa2 s1") auto
  have s1: "calls s1 = calls ?st0 @ [Rasterize (rasterCall P False (maskField x bg) ?pa1)]"
    using convert_calls [of E P "maskField x bg" ?pa1 ?st0] c1 by simp
  have s2: "calls s2 = calls s1 @ [Rasterize (rasterCall P False (maskField x bg) ?pa2)]"
    using convert_calls [of E P "maskField x bg" ?pa2 s1] c2 by simp
  have "snd (buildMask E P geo True x bg bw pm pa st) =
          createVdbPrimitive
            (MaskPrim ((sdfToFogVolume (csgDifference g1 g2))\<lparr>getName := maskname P\<rparr>)) s2"
    using assms c1 c2 unfolding buildMask_def maskField_def [symmetric] Let_def
    by (simp add: maskField_def)
  with s1 s2 show ?thesis by simp
qed

lemma buildMask_calls_topology:
  assumes "0 < min (max (boundinglimit P) 0) 1"
  shows "calls (snd (buildMask E P geo False x bg bw (Some pm) pa st)) =
           calls st @
           [CreateGrid bg, CreateGrid bg,
            TopologyToLevelSet pm bw (closing P)
              \<lceil>float64 (real_of_int (min (dilation P) 1)
                        * float64 (1 + min (max (boundinglimit P) 0) 1))\<rceil>
              (smoothing P),
            TopologyToLevelSet pm bw (closing P)
              (int_of_real (float64 (real_of_int (min (dilation P) 1)
                                     * float64 (1 - min (max (boundinglimit P) 0) 1))))
              (smoothing P)]"
  using assms by (simp add: buildMask_def Let_def)

text \<open>With an offset of \<open>2\<^sup>-\<^sup>6\<^sup>0\<close> the doubles \<^verbatim>\<open>1.0 + offset\<close> and \<^verbatim>\<open>1.0 - offset\<close>
  are both 1, and both limit surfaces are built with the same dilation count.\<close>

lemma buildMask_tiny_offset:
  assumes "boundinglimit P = 1 / 1152921504606846976" and "dilation P = 1"
  shows "calls (snd (buildMask E P geo False x bg bw (Some pm) pa st)) =
           calls st @
           [CreateGrid bg, CreateGrid bg,
            TopologyToLevelSet pm bw (closing P) 1 (smoothing P),
            TopologyToLevelSet pm bw (closing P) 1 (smoothing P)]"
proof -
  have off: "min (max (boundinglimit P) 0) 1 = 1 / 1152921504606846976"
    using assms(1) by simp
  have pos: "0 < min (max (boundinglimit P) 0) 1" unfolding off by simp
  have up: "float64 (1 + 1 / 1152921504606846976) = 1"
    using float64_above_one by simp
  have dn: "float64 (1 - 1 / 1152921504606846976) = 1"
    using float64_below_one by simp
  show ?thesis
    unfolding buildMask_calls_topology [OF pos] off up dn
    by (simp add: assms(2) int_of_real_def)
qed


subsection \<open>The stages of the cook\<close>

lemma referenceStage_keeps:
  "referenceStage P ref x b st = Inr (x', b', g, st') \<Longrightarrow>
     gdp st' = gdp st \<and> calls st' = calls st \<and> errors st' = errors st"
  "referenceStage P ref x b st = Inl st'' \<Longrightarrow>
     gdp st'' = gdp st \<and> calls st'' = calls st"
  by (auto simp add: referenceStage_def Let_def addWarning_def addMessage_def addError_def
      split: option.splits if_splits)

lemma conversionStage_interrupted:
  "wasInterrupted E 0 \<Longrightarrow> conversionStage E P geo pa x bg rg st = st"
  by (simp add: conversionStage_def)

lemma primaryConversion_masks [simp]:
  "masks (snd (snd (primaryConversion E P geo pa x bg bw rg st))) = masks st"
  by (simp add: primaryConversion_def Let_def case_prod_beta split: option.splits)

lemma primaryConversion_pointMask:
  "conversion P \<noteq> 0 \<Longrightarrow>
   fst (snd (primaryConversion E P geo pa x bg bw rg st)) = Some (GUvdbCreatePointMaskGrid E x geo)"
  by (simp add: primaryConversion_def Let_def)

lemma conversionStage_no_mask:
  "buildmask P = 0 \<Longrightarrow> masks (conversionStage E P geo pa x bg rg st) = masks st"
  by (simp add: conversionStage_def Let_def case_prod_beta)

lemma conversionStage_mask:
  assumes "\<not> wasInterrupted E 0" and "buildmask P \<noteq> 0"
  shows "conversionStage E P geo pa x bg rg st =
           outputPrimary P
             (fst (primaryConversion E P geo pa x bg \<lceil>float32 (bg / mVoxelSize st)\<rceil> rg st))
             (snd (buildMask E P geo (conversion P = 0) x bg \<lceil>float32 (bg / mVoxelSize st)\<rceil>
                     (fst (snd (primaryConversion E P geo pa x bg \<lceil>float32 (bg / mVoxelSize st)\<rceil> rg st)))
                     pa
                     (snd (snd (primaryConversion E P geo pa x bg \<lceil>float32 (bg / mVoxelSize st)\<rceil> rg st)))))"
  using assms by (simp add: conversionStage_def Let_def case_prod_beta)

lemma masks_newNode [simp]: "masks (newNode\<lparr>mVoxelSize := v\<rparr>) = []"
  by (simp add: masks_def newNode_def)

lemma mask_in_gdp: "MaskPrim m \<in> set (gdp st) \<longleftrightarrow> MaskPrim m \<in> set (masks st)"
  by (simp add: masks_def)

text \<open>A mask in the output comes from the conversion stage, run after a reference
  stage that has not stopped the cook.\<close>

lemma cook_mask_origin:
  assumes "MaskPrim m \<in> set (gdp (cookVDBSop E P geo ref))"
  shows "buildmask P \<noteq> 0 \<and> \<not> float32 (voxelsize P) < float64 (1 / 100000) \<and>
         (builddistance P \<noteq> 0 \<or> buildfog P \<noteq> 0 \<or> attrList P \<noteq> []) \<and>
         \<not> wasInterrupted E 0 \<and>
         (\<exists>x bg rg st'.
            cookVDBSop E P geo ref =
              conversionStage E P geo (newParticleList geo (particlescale P) (velocityscale P))
                x bg rg st' \<and>
            masks st' = [] \<and> calls st' = [])"
proof -
  let ?st = "newNode\<lparr>mVoxelSize := float32 (voxelsize P)\<rparr>"
  let ?pa = "newParticleList geo (particlescale P) (velocityscale P)"
  have small: "\<not> float32 (voxelsize P) < float64 (1 / 100000)"
    using assms by (auto simp add: cook_small addError_def newNode_def)
  have sel: "builddistance P \<noteq> 0 \<or> buildfog P \<noteq> 0 \<or> attrList P \<noteq> []"
    using assms small by (auto simp add: cook_no_output addWarning_def newNode_def)
  let ?rs = "referenceStage P ref (createLinearTransform (float32 (voxelsize P)))
               (if useworldspace P \<noteq> 0 then float32 (halfband P)
                else float32 (float32 (voxelsize P) * float32 (halfbandvoxels P))) ?st"
  show ?thesis
  proof (cases ?rs)
    case (Inl st')
    with referenceStage_keeps(2) [OF Inl] assms small sel show ?thesis
      by (simp add: cook_main newNode_def)
  next
    case (Inr r)
    obtain x bg rg st' where r: "r = (x, bg, rg, st')" by (cases r) auto
    from Inr r have rs: "?rs = Inr (x, bg, rg, st')" by simp
    from referenceStage_keeps(1) [OF rs] have m0: "masks st' = []" and c0: "calls st' = []"
      by (simp_all add: masks_def newNode_def)
    have cook: "cookVDBSop E P geo ref = conversionStage E P geo ?pa x bg rg st'"
      using small sel rs by (simp add: cook_main)
    have ni: "\<not> wasInterrupted E 0"
      using assms cook m0 by (auto simp add: conversionStage_interrupted mask_in_gdp)
    have bm: "buildmask P \<noteq> 0"
      using assms cook m0 conversionStage_no_mask [of P E geo ?pa x bg rg st']
      by (auto simp add: mask_in_gdp)
    from small sel ni bm cook m0 c0 show ?thesis by blast
  qed
qed


subsection \<open>The bounding mask\<close>

lemma jobParticles_rasterJob [simp]: "jobParticles (rasterJob P pa) = pa"
  by (simp add: rasterJob_def Let_def)

lemma rcJob_rasterCall [simp]: "rcJob (rasterCall P b g pa) = rasterJob P pa"
  by (simp add: rasterCall_def)

lemma mRadiusMult_setRadiusMult [simp]: "mRadiusMult (setRadiusMult r pa) = r"
  by (simp add: setRadiusMult_def)

lemma radiusMult_newParticleList [simp]: "radiusMult (newParticleList geo r v) = r"
  by (simp add: radiusMult_def newParticleList_def)

lemma int_of_real_floor: "0 \<le> x \<Longrightarrow> int_of_real x = \<lfloor>x\<rfloor>"
  by (simp add: int_of_real_def)

lemma emptyMask_voxels:
  "voxels ((sdfToFogVolume (csgDifference (maskField x bg) (maskField x bg)))\<lparr>getName := n\<rparr>)
     = (\<lambda>c. None)"
  by (simp add: sdfToFogVolume_def csgDifference_def maskField_def FloatGrid_create_def)

text \<open>
  Claim C4. Whenever a cook produces a mask and the bounding limit, clamped to the range
  from 0 to 1, is 0, the mask is empty: it has no active voxel, and every voxel reads the
  background value. (Both limit surfaces are then the same empty grid; their difference
  and its fog volume have no active voxel.)
\<close>

theorem zero_offset_mask_is_empty:
  assumes "MaskPrim m \<in> set (gdp (cookVDBSop E P geo ref))"
      and "min (max (boundinglimit P) 0) 1 = 0"
  shows "activeVoxels m = {} \<and> (\<forall>c. getValue m c = background m)"
proof -
  let ?pa = "newParticleList geo (particlescale P) (velocityscale P)"
  from cook_mask_origin [OF assms(1)] obtain x bg rg st'
    where ni: "\<not> wasInterrupted E 0" and bm: "buildmask P \<noteq> 0"
      and cook: "cookVDBSop E P geo ref = conversionStage E P geo ?pa x bg rg st'"
      and m0: "masks st' = []"
    by blast
  let ?X = "(sdfToFogVolume (csgDifference (maskField x bg) (maskField x bg)))
              \<lparr>getName := maskname P\<rparr>"
  have "masks (cookVDBSop E P geo ref) = [MaskPrim ?X]"
    unfolding cook conversionStage_mask [OF ni bm]
    by (simp add: buildMask_zero [OF assms(2)] m0)
  with assms(1) have "m = ?X" by (simp add: mask_in_gdp)
  with emptyMask_voxels [of "maskname P" x bg] have "voxels m = (\<lambda>c. None)" by simp
  then show ?thesis by (simp add: activeVoxels_def getValue_def)
qed

theorem zero_offset_mask_is_empty_witness:
  "MaskPrim \<lparr> gridType = VT_float, getGridClass = GRID_FOG_VOLUME,
              transform = createLinearTransform (1 / 8), getName = ''boundingvolume'',
              background = 0, voxels = (\<lambda>c. None) \<rparr>
     \<in> set (gdp (cookVDBSop idleEnv (exampleParms\<lparr>buildmask := 1, boundinglimit := 0\<rparr>)
                   twoPoints None)) \<and>
   min (max (boundinglimit (exampleParms\<lparr>buildmask := 1, boundinglimit := 0\<rparr>)) 0) 1 = 0 \<and>
   activeVoxels \<lparr> gridType = VT_float, getGridClass = GRID_FOG_VOLUME,
              transform = createLinearTransform (1 / 8), getName = ''boundingvolume'',
              background = 0, voxels = (\<lambda>c. None) \<rparr> = {}"
proof -
  let ?P = "exampleParms\<lparr>buildmask := 1, boundinglimit := 0\<rparr>"
  let ?m = "\<lparr> gridType = VT_float, getGridClass = GRID_FOG_VOLUME,
              transform = createLinearTransform (1 / 8), getName = ''boundingvolume'',
              background = 0, voxels = (\<lambda>c. None) \<rparr>"
  have h1: "MaskPrim ?m \<in> set (gdp (cookVDBSop idleEnv ?P twoPoints None))"
    by (simp add: eval_defs float64_voxel_limit)
  have h2: "min (max (boundinglimit ?P) 0) 1 = 0"
    by (simp add: exampleParms_def)
  from zero_offset_mask_is_empty [OF h1 h2] h1 h2 show ?thesis by blast
qed

text \<open>
  Claim C6. With the mask toggle on and the distance field, the fog volume and the
  attribute list all off, the cook returns with the warning "No output selected" (unless
  the voxel size check has stopped it before) and the output geometry is empty, with no
  external tool called. The mask toggle does not count as a selection: a mask in the
  output implies that the distance field, the fog volume or an attribute is requested.
\<close>

theorem mask_alone_is_no_output:
  "(buildmask P \<noteq> 0 \<and> builddistance P = 0 \<and> buildfog P = 0 \<and> attrList P = [] \<longrightarrow>
      gdp (cookVDBSop E P geo ref) = [] \<and> calls (cookVDBSop E P geo ref) = [] \<and>
      (\<not> float32 (voxelsize P) < float64 (1 / 100000) \<longrightarrow>
         warnings (cookVDBSop E P geo ref) = [NoOutputSelected] \<and>
         errors (cookVDBSop E P geo ref) = [])) \<and>
   (MaskPrim m \<in> set (gdp (cookVDBSop E P geo ref)) \<longrightarrow>
      builddistance P \<noteq> 0 \<or> buildfog P \<noteq> 0 \<or> attrList P \<noteq> [])"
proof (intro conjI impI)
  assume "MaskPrim m \<in> set (gdp (cookVDBSop E P geo ref))"
  from cook_mask_origin [OF this]
  show "builddistance P \<noteq> 0 \<or> buildfog P \<noteq> 0 \<or> attrList P \<noteq> []" by blast
next
  assume a: "buildmask P \<noteq> 0 \<and> builddistance P = 0 \<and> buildfog P = 0 \<and> attrList P = []"
  then show "gdp (cookVDBSop E P geo ref) = []"
    by (cases "float32 (voxelsize P) < float64 (1 / 100000)")
       (simp_all add: cook_small cook_no_output newNode_def addError_def addWarning_def)
  from a show "calls (cookVDBSop E P geo ref) = []"
    by (cases "float32 (voxelsize P) < float64 (1 / 100000)")
       (simp_all add: cook_small cook_no_output newNode_def)
  assume "\<not> float32 (voxelsize P) < float64 (1 / 100000)"
  with a show "warnings (cookVDBSop E P geo ref) = [NoOutputSelected]"
    and "errors (cookVDBSop E P geo ref) = []"
    by (simp_all add: cook_no_output newNode_def addWarning_def)
qed

theorem mask_alone_is_no_output_witness:
  "(buildmask (exampleParms\<lparr>buildmask := 1, builddistance := 0\<rparr>) \<noteq> 0 \<and>
    builddistance (exampleParms\<lparr>buildmask := 1, builddistance := 0\<rparr>) = 0 \<and>
    buildfog (exampleParms\<lparr>buildmask := 1, builddistance := 0\<rparr>) = 0 \<and>
    attrList (exampleParms\<lparr>buildmask := 1, builddistance := 0\<rparr>) = [] \<and>
    \<not> float32 (voxelsize (exampleParms\<lparr>buildmask := 1, builddistance := 0\<rparr>)) < float64 (1 / 100000) \<and>
    gdp (cookVDBSop idleEnv (exampleParms\<lparr>buildmask := 1, builddistance := 0\<rparr>) twoPoints None)
      = [] \<and>
    warnings (cookVDBSop idleEnv (exampleParms\<lparr>buildmask := 1, builddistance := 0\<rparr>)
                twoPoints None) = [NoOutputSelected]) \<and>
   (MaskPrim \<lparr> gridType = VT_float, getGridClass = GRID_FOG_VOLUME,
               transform = createLinearTransform (1 / 8), getName = ''boundingvolume'',
               background = 0, voxels = (\<lambda>c. None) \<rparr>
      \<in> set (gdp (cookVDBSop idleEnv (exampleParms\<lparr>buildmask := 1\<rparr>) twoPoints None)) \<and>
    builddistance (exampleParms\<lparr>buildmask := 1\<rparr>) \<noteq> 0)"
proof -
  let ?P = "exampleParms\<lparr>buildmask := 1, builddistance := 0\<rparr>"
  let ?Q = "exampleParms\<lparr>buildmask := 1\<rparr>"
  let ?m = "\<lparr> gridType = VT_float, getGridClass = GRID_FOG_VOLUME,
              transform = createLinearTransform (1 / 8), getName = ''boundingvolume'',
              background = 0, voxels = (\<lambda>c. None) \<rparr>"
  have h1: "buildmask ?P \<noteq> 0 \<and> builddistance ?P = 0 \<and> buildfog ?P = 0 \<and> attrList ?P = []"
    by (simp add: exampleParms_def)
  have h2: "\<not> float32 (voxelsize ?P) < float64 (1 / 100000)"
    by (simp add: exampleParms_def float64_voxel_limit)
  have h3: "MaskPrim ?m \<in> set (gdp (cookVDBSop idleEnv ?Q twoPoints None))"
    by (simp add: eval_defs float64_voxel_limit)
  have h4: "attrList ?Q = [] \<and> buildfog ?Q = 0" by (simp add: exampleParms_def)
  from mask_alone_is_no_output [of ?P idleEnv twoPoints None ?m] h1 h2
  have a: "gdp (cookVDBSop idleEnv ?P twoPoints None) = [] \<and>
           warnings (cookVDBSop idleEnv ?P twoPoints None) = [NoOutputSelected]"
    by blast
  from mask_alone_is_no_output [of ?Q idleEnv twoPoints None ?m] h3 h4
  have b: "builddistance ?Q \<noteq> 0" by blast
  from a b h1 h2 h3 show ?thesis by blast
qed




subsection \<open>The particle adapter\<close>

lemma size_newParticleList [simp]: "size_pa (newParticleList geo r v) = length (points geo)"
  by (simp add: size_pa_def newParticleList_def)

text \<open>
  Claim C7. For an adapter built by the constructor and every particle index below the
  particle count: when the geometry has the radius attribute, the radius read through
  \<^verbatim>\<open>getPosRad\<close>, and through \<^verbatim>\<open>getPosRadVel\<close> when there is a velocity, is the
  radius multiplier times the stored value, the product of lines 126 and 137 being a
  double; when it has none, the conversion either rasterizes spheres with the multiplier
  itself as the constant radius argument, or rasterizes trails, and then the radius
  \<^verbatim>\<open>getPosRadVel\<close> returns is the multiplier itself. In each case this is the radius
  the rasterizer works with, and both conversions hand the rasterizer exactly this job.
\<close>

theorem radius_through_adapter:
  assumes "pa = newParticleList geo mult vmult" and "n < size_pa pa"
  shows "(pscale geo = Some scale \<longrightarrow>
            getPosRad pa n = Some (points geo ! n, float64 (mult * scale n)) \<and>
            (velocity geo \<noteq> None \<longrightarrow>
               map_option (\<lambda>prv. fst (snd prv)) (getPosRadVel pa n)
                 = Some (float64 (mult * scale n))) \<and>
            jobRadius (rasterJob P pa) n = Some (float64 (mult * scale n))) \<and>
         (pscale geo = None \<longrightarrow>
            (rasterJob P pa = RasterizeSpheresRadius pa mult \<or>
             rasterJob P pa = RasterizeTrails pa (float32 (trailresolution P)) \<and>
             map_option (\<lambda>prv. fst (snd prv)) (getPosRadVel pa n) = Some mult) \<and>
            jobRadius (rasterJob P pa) n = Some mult) \<and>
         calls (snd (convert E P g pa st)) = calls st @ [Rasterize (rasterCall P False g pa)] \<and>
         calls (snd (convertWithAttributes E P g pa geo st))
           = calls st @ [Rasterize (rasterCall P True g pa)] \<and>
         rcJob (rasterCall P False g pa) = rasterJob P pa \<and>
         rcJob (rasterCall P True g pa) = rasterJob P pa"
proof -
  have triple: "\<exists>x y z. points geo ! n = (x, y, z)"
    by (cases "points geo ! n") auto
  with assms show ?thesis
    by (auto simp add: newParticleList_def getPosRad_def getPosRadVel_def getPos_def size_pa_def
        rasterJob_def hasRadius_def hasVelocity_def radiusMult_def Let_def case_prod_beta)
qed

theorem radius_through_adapter_witness:
  "(1 < size_pa (newParticleList twoPoints 2 1) \<and>
    pscale twoPoints = Some (\<lambda>n. 1 / 4) \<and>
    getPosRad (newParticleList twoPoints 2 1) 1 = Some ((1, 0, 0), 1 / 2) \<and>
    jobRadius (rasterJob exampleParms (newParticleList twoPoints 2 1)) 1 = Some (1 / 2)) \<and>
   (1 < size_pa (newParticleList barePoints 2 1) \<and>
    pscale barePoints = None \<and>
    rasterJob exampleParms (newParticleList barePoints 2 1)
      = RasterizeSpheresRadius (newParticleList barePoints 2 1) 2 \<and>
    jobRadius (rasterJob exampleParms (newParticleList barePoints 2 1)) 1 = Some 2) \<and>
   (1 < size_pa (newParticleList movingPoints 2 1) \<and>
    pscale movingPoints = None \<and> velocity movingPoints \<noteq> None \<and>
    rasterJob (exampleParms\<lparr>velocitytrails := 1\<rparr>) (newParticleList movingPoints 2 1)
      = RasterizeTrails (newParticleList movingPoints 2 1) 1 \<and>
    map_option (\<lambda>prv. fst (snd prv)) (getPosRadVel (newParticleList movingPoints 2 1) 1) = Some 2)"
proof -
  let ?T = "exampleParms\<lparr>velocitytrails := 1\<rparr>"
  have a1: "1 < size_pa (newParticleList twoPoints 2 1)"
    by (simp add: twoPoints_def)
  have a2: "pscale twoPoints = Some (\<lambda>n. 1 / 4)" "points twoPoints ! 1 = (1, 0, 0)"
    by (simp_all add: twoPoints_def)
  have a3: "float64 (2 * (1 / 4)) = 1 / 2" by simp
  have b1: "1 < size_pa (newParticleList barePoints 2 1)"
    by (simp add: barePoints_def twoPoints_def)
  have b2: "pscale barePoints = None"
    by (simp add: barePoints_def)
  have b3: "rasterJob exampleParms (newParticleList barePoints 2 1)
              \<noteq> RasterizeTrails (newParticleList barePoints 2 1)
                    (float32 (trailresolution exampleParms))"
    by (simp add: rasterJob_def exampleParms_def Let_def hasRadius_def hasVelocity_def
        newParticleList_def barePoints_def twoPoints_def)
  have c1: "1 < size_pa (newParticleList movingPoints 2 1)"
    by (simp add: movingPoints_def barePoints_def twoPoints_def)
  have c2: "pscale movingPoints = None" "velocity movingPoints \<noteq> None"
    by (simp_all add: movingPoints_def barePoints_def)
  have c3: "rasterJob ?T (newParticleList movingPoints 2 1)
              \<noteq> RasterizeSpheresRadius (newParticleList movingPoints 2 1) 2"
    "float32 (trailresolution ?T) = 1"
    by (simp_all add: rasterJob_def exampleParms_def Let_def hasRadius_def hasVelocity_def
        newParticleList_def movingPoints_def barePoints_def twoPoints_def)
  note ta = radius_through_adapter [OF refl a1, of "\<lambda>n. 1 / 4" exampleParms,
      unfolded a2(2) a3]
  note tb = radius_through_adapter [OF refl b1, of "\<lambda>n. 1 / 4" exampleParms]
  note tc = radius_through_adapter [OF refl c1, of "\<lambda>n. 1 / 4" ?T, unfolded c3(2)]
  from ta a2(1)
  have a: "getPosRad (newParticleList twoPoints 2 1) 1 = Some ((1, 0, 0), 1 / 2) \<and>
    jobRadius (rasterJob exampleParms (newParticleList twoPoints 2 1)) 1 = Some (1 / 2)"
    by blast
  from tb b2 b3
  have b: "rasterJob exampleParms (newParticleList barePoints 2 1)
      = RasterizeSpheresRadius (newParticleList barePoints 2 1) 2 \<and>
    jobRadius (rasterJob exampleParms (newParticleList barePoints 2 1)) 1 = Some 2"
    by blast
  from tc c2 c3(1)
  have c: "rasterJob ?T (newParticleList movingPoints 2 1)
      = RasterizeTrails (newParticleList movingPoints 2 1) 1 \<and>
    map_option (\<lambda>prv. fst (snd prv)) (getPosRadVel (newParticleList movingPoints 2 1) 1) = Some 2"
    by blast
  from a b c a1 a2(1) b1 b2 c1 c2 show ?thesis by blast
qed

subsection \<open>The half-band unit converter\<close>

text \<open>
  Claim C9, as amended. At a fixed positive voxel size, with the world-space toggle on
  the converter sets the world-space half-band to the double product of the voxel count
  and the voxel size, and with the toggle off it sets the voxel count to the double
  quotient of the world-space half-band by the voxel size. Converting one way and then
  the other gives back the value started from up to the two roundings: when both
  results are in the normal range of doubles, the relative error is at most
  \<open>2\<^sup>-\<^sup>5\<^sup>2 + 2\<^sup>-\<^sup>1\<^sup>0\<^sup>6\<close>; and when the value started from is a double
  and the first conversion is exact, the value started from is returned.
\<close>

theorem convertUnits_round_trip:
  assumes "0 < voxSize" and "w \<noteq> 0"
  shows "halfband (convertUnits voxSize (P\<lparr>useworldspace := w\<rparr>))
           = float64 (halfbandvoxels P * voxSize) \<and>
         halfbandvoxels (convertUnits voxSize (P\<lparr>useworldspace := 0\<rparr>))
           = float64 (halfband P / voxSize) \<and>
         (normal64 (halfbandvoxels P * voxSize) \<and>
          normal64 (float64 (halfbandvoxels P * voxSize) / voxSize) \<longrightarrow>
            \<bar>halfbandvoxels (convertUnits voxSize
                ((convertUnits voxSize (P\<lparr>useworldspace := w\<rparr>))\<lparr>useworldspace := 0\<rparr>))
              - halfbandvoxels P\<bar>
              \<le> (2 / 2 ^ 53 + 1 / 2 ^ 106) * \<bar>halfbandvoxels P\<bar>) \<and>
         (normal64 (halfband P / voxSize) \<and>
          normal64 (float64 (halfband P / voxSize) * voxSize) \<longrightarrow>
            \<bar>halfband (convertUnits voxSize
                ((convertUnits voxSize (P\<lparr>useworldspace := 0\<rparr>))\<lparr>useworldspace := w\<rparr>))
              - halfband P\<bar>
              \<le> (2 / 2 ^ 53 + 1 / 2 ^ 106) * \<bar>halfband P\<bar>) \<and>
         (float64 (halfbandvoxels P) = halfbandvoxels P \<and>
          float64 (halfbandvoxels P * voxSize) = halfbandvoxels P * voxSize \<longrightarrow>
            halfbandvoxels (convertUnits voxSize
                ((convertUnits voxSize (P\<lparr>useworldspace := w\<rparr>))\<lparr>useworldspace := 0\<rparr>))
              = halfbandvoxels P) \<and>
         (float64 (halfband P) = halfband P \<and>
          float64 (halfband P / voxSize) = halfband P / voxSize \<longrightarrow>
            halfband (convertUnits voxSize
                ((convertUnits voxSize (P\<lparr>useworldspace := 0\<rparr>))\<lparr>useworldspace := w\<rparr>))
              = halfband P)"
proof -
  let ?x = "halfbandvoxels P" and ?h = "halfband P"
  have v: "voxSize \<noteq> 0" using assms(1) by simp
  have rt1: "halfbandvoxels (convertUnits voxSize
                ((convertUnits voxSize (P\<lparr>useworldspace := w\<rparr>))\<lparr>useworldspace := 0\<rparr>))
               = float64 (float64 (?x * voxSize) / voxSize)"
    using assms(2) by (simp add: convertUnits_def)
  have rt2: "halfband (convertUnits voxSize
                ((convertUnits voxSize (P\<lparr>useworldspace := 0\<rparr>))\<lparr>useworldspace := w\<rparr>))
               = float64 (float64 (?h / voxSize) * voxSize)"
    using assms(2) by (simp add: convertUnits_def)
  have c1: "halfband (convertUnits voxSize (P\<lparr>useworldspace := w\<rparr>)) = float64 (?x * voxSize)"
    using assms(2) by (simp add: convertUnits_def)
  have c2: "halfbandvoxels (convertUnits voxSize (P\<lparr>useworldspace := 0\<rparr>))
              = float64 (?h / voxSize)"
    by (simp add: convertUnits_def)
  have e1: "normal64 (?x * voxSize) \<and> normal64 (float64 (?x * voxSize) / voxSize) \<longrightarrow>
              \<bar>float64 (float64 (?x * voxSize) / voxSize) - ?x\<bar>
                \<le> (2 / 2 ^ 53 + 1 / 2 ^ 106) * \<bar>?x\<bar>"
    using round_trip_mult_div [OF v, of ?x] by (simp add: normal64_def)
  have e2: "normal64 (?h / voxSize) \<and> normal64 (float64 (?h / voxSize) * voxSize) \<longrightarrow>
              \<bar>float64 (float64 (?h / voxSize) * voxSize) - ?h\<bar>
                \<le> (2 / 2 ^ 53 + 1 / 2 ^ 106) * \<bar>?h\<bar>"
    using round_trip_div_mult [OF v, of ?h] by (simp add: normal64_def)
  have x1: "float64 ?x = ?x \<and> float64 (?x * voxSize) = ?x * voxSize \<longrightarrow>
              float64 (float64 (?x * voxSize) / voxSize) = ?x"
    using v by simp
  have x2: "float64 ?h = ?h \<and> float64 (?h / voxSize) = ?h / voxSize \<longrightarrow>
              float64 (float64 (?h / voxSize) * voxSize) = ?h"
    using v by simp
  from c1 c2 e1 e2 x1 x2 show ?thesis unfolding rt1 rt2 by blast
qed

theorem convertUnits_round_trip_witness:
  "(0::real) < 1 / 8 \<and> (1::int) \<noteq> 0 \<and>
   normal64 (halfbandvoxels exampleParms * (1 / 8)) \<and>
   normal64 (float64 (halfbandvoxels exampleParms * (1 / 8)) / (1 / 8)) \<and>
   normal64 (halfband exampleParms / (1 / 8)) \<and>
   normal64 (float64 (halfband exampleParms / (1 / 8)) * (1 / 8)) \<and>
   float64 (halfbandvoxels exampleParms) = halfbandvoxels exampleParms \<and>
   float64 (halfbandvoxels exampleParms * (1 / 8)) = halfbandvoxels exampleParms * (1 / 8) \<and>
   float64 (halfband exampleParms) = halfband exampleParms \<and>
   float64 (halfband exampleParms / (1 / 8)) = halfband exampleParms / (1 / 8) \<and>
   halfband (convertUnits (1 / 8) (exampleParms\<lparr>useworldspace := 1\<rparr>)) = 3 / 8 \<and>
   halfbandvoxels (convertUnits (1 / 8) (exampleParms\<lparr>useworldspace := 0\<rparr>)) = 8 \<and>
   halfbandvoxels (convertUnits (1 / 8)
      ((convertUnits (1 / 8) (exampleParms\<lparr>useworldspace := 1\<rparr>))\<lparr>useworldspace := 0\<rparr>)) = 3 \<and>
   halfband (convertUnits (1 / 8)
      ((convertUnits (1 / 8) (exampleParms\<lparr>useworldspace := 0\<rparr>))\<lparr>useworldspace := 1\<rparr>)) = 1"
proof -
  have h1: "(0::real) < 1 / 8" by simp
  have h2: "(1::int) \<noteq> 0" by simp
  have d: "halfbandvoxels exampleParms = 3" "halfband exampleParms = 1"
    by (simp_all add: exampleParms_def)
  have n: "normal64 (halfbandvoxels exampleParms * (1 / 8))"
    "normal64 (float64 (halfbandvoxels exampleParms * (1 / 8)) / (1 / 8))"
    "normal64 (halfband exampleParms / (1 / 8))"
    "normal64 (float64 (halfband exampleParms / (1 / 8)) * (1 / 8))"
    by (simp_all add: d normal64_def power_int_minus)
  have x: "float64 (halfbandvoxels exampleParms) = halfbandvoxels exampleParms"
    "float64 (halfbandvoxels exampleParms * (1 / 8)) = halfbandvoxels exampleParms * (1 / 8)"
    "float64 (halfband exampleParms) = halfband exampleParms"
    "float64 (halfband exampleParms / (1 / 8)) = halfband exampleParms / (1 / 8)"
    by (simp_all add: d)
  have v: "halfbandvoxels exampleParms * (1 / 8) = 3 / 8" "halfband exampleParms / (1 / 8) = 8"
    by (simp_all add: d)
  note t = convertUnits_round_trip [OF h1 h2, of exampleParms]
  from t x d have r: "halfbandvoxels (convertUnits (1 / 8)
      ((convertUnits (1 / 8) (exampleParms\<lparr>useworldspace := 1\<rparr>))\<lparr>useworldspace := 0\<rparr>)) = 3"
    "halfband (convertUnits (1 / 8)
      ((convertUnits (1 / 8) (exampleParms\<lparr>useworldspace := 0\<rparr>))\<lparr>useworldspace := 1\<rparr>)) = 1"
    by simp_all
  from t v have c: "halfband (convertUnits (1 / 8) (exampleParms\<lparr>useworldspace := 1\<rparr>)) = 3 / 8"
    "halfbandvoxels (convertUnits (1 / 8) (exampleParms\<lparr>useworldspace := 0\<rparr>)) = 8"
    by simp_all
  from h1 h2 n x r c show ?thesis by blast
qed

text \<open>
  The claim as written fails: the round trip is not the identity. At the voxel size
  \<^verbatim>\<open>0.1f\<close> a half-band of \<^verbatim>\<open>1.3\<close> voxels is converted to the world-space half-band
  \<^verbatim>\<open>0.13000000193715097\<close> and back to \<^verbatim>\<open>1.3000000000000003\<close> voxels, the next double
  above \<^verbatim>\<open>1.3\<close>.
\<close>

theorem convertUnits_round_trip_counterexample:
  "float32 (1 / 10) = 13421773 / 134217728 \<and>
   float64 (13 / 10) = 5854679515581645 / 4503599627370496 \<and>
   halfband (convertUnits (13421773 / 134217728)
      (exampleParms\<lparr>halfbandvoxels := 5854679515581645 / 4503599627370496,
                     useworldspace := 1\<rparr>))
     = 4683743682258535 / 36028797018963968 \<and>
   halfbandvoxels (convertUnits (13421773 / 134217728)
      ((convertUnits (13421773 / 134217728)
          (exampleParms\<lparr>halfbandvoxels := 5854679515581645 / 4503599627370496,
                         useworldspace := 1\<rparr>))\<lparr>useworldspace := 0\<rparr>))
     = 2927339757790823 / 2251799813685248 \<and>
   (2927339757790823 / 2251799813685248 :: real) \<noteq> 5854679515581645 / 4503599627370496"
proof -
  have p: "(5854679515581645 / 4503599627370496) * (13421773 / 134217728)
             = (78580179445886802156585 / 604462909807314587353088 :: real)"
    by simp
  have q: "(4683743682258535 / 36028797018963968) / (13421773 / 134217728)
             = (4683743682258535 / 3602879755583488 :: real)"
    by simp
  have w: "float64 ((5854679515581645 / 4503599627370496) * (13421773 / 134217728))
             = 4683743682258535 / 36028797018963968"
    unfolding p by (rule float64_product)
  have y: "float64 ((4683743682258535 / 36028797018963968) / (13421773 / 134217728))
             = 2927339757790823 / 2251799813685248"
    unfolding q by (rule float64_quotient)
  have a: "halfband (convertUnits (13421773 / 134217728)
      (exampleParms\<lparr>halfbandvoxels := 5854679515581645 / 4503599627370496,
                     useworldspace := 1\<rparr>))
     = float64 ((5854679515581645 / 4503599627370496) * (13421773 / 134217728))"
    unfolding convertUnits_def by (simp del: times_divide_times_eq times_divide_eq_left times_divide_eq_right)
  have b: "halfbandvoxels (convertUnits (13421773 / 134217728)
      ((convertUnits (13421773 / 134217728)
          (exampleParms\<lparr>halfbandvoxels := 5854679515581645 / 4503599627370496,
                         useworldspace := 1\<rparr>))\<lparr>useworldspace := 0\<rparr>))
     = float64 (float64 ((5854679515581645 / 4503599627370496) * (13421773 / 134217728))
                  / (13421773 / 134217728))"
    unfolding convertUnits_def by (simp del: times_divide_times_eq times_divide_eq_left times_divide_eq_right)
  have c: "(2927339757790823 / 2251799813685248 :: real) \<noteq> 5854679515581645 / 4503599627370496"
    by simp
  from a b c show ?thesis
    unfolding w y using float32_tenth float64_thirteen_tenths by blast
qed

subsection \<open>The closest-point index grid\<close>

lemma attributeStep_index:
  "attributeStep geo i inst (ds, k, st) = (ds', k', st') \<Longrightarrow>
   k' = (if fst inst = ''point_list_index'' then i else k)"
  by (auto simp add: attributeStep_def Let_def split: prod.splits if_splits option.splits)

lemma attributeStep_details:
  "attributeStep geo i inst (ds, k, st) = (ds', k', st') \<Longrightarrow>
   \<forall>d \<in> set ds. adAttribute d \<noteq> ''point_list_index'' \<Longrightarrow>
   \<forall>d \<in> set ds'. adAttribute d \<noteq> ''point_list_index''"
  by (auto simp add: attributeStep_def addAttributeDetails_def Let_def
      split: prod.splits if_splits option.splits)

lemma attributeLoop_details:
  "attributeLoop geo i insts (ds, k, st) = (ds', k', st') \<Longrightarrow>
   \<forall>d \<in> set ds. adAttribute d \<noteq> ''point_list_index'' \<Longrightarrow>
   \<forall>d \<in> set ds'. adAttribute d \<noteq> ''point_list_index''"
proof (induction insts arbitrary: i ds k st)
  case Nil
  then show ?case by simp
next
  case (Cons inst insts)
  obtain ds1 k1 st1 where step: "attributeStep geo i inst (ds, k, st) = (ds1, k1, st1)"
    by (cases "attributeStep geo i inst (ds, k, st)") auto
  from Cons.prems(1) step have "attributeLoop geo (i + 1) insts (ds1, k1, st1) = (ds', k', st')"
    by simp
  from Cons.IH [OF this attributeStep_details [OF step Cons.prems(2)]] show ?case .
qed

lemma attributeLoop_index:
  "attributeLoop geo i insts (ds, k, st) = (ds', k', st') \<Longrightarrow>
   (filter (\<lambda>inst. fst inst = ''point_list_index'') insts = [] \<longrightarrow> k' = k) \<and>
   (filter (\<lambda>inst. fst inst = ''point_list_index'') insts \<noteq> [] \<longrightarrow>
      i \<le> k' \<and> k' < i + int (length insts) \<and>
      insts ! nat (k' - i) = last (filter (\<lambda>inst. fst inst = ''point_list_index'') insts))"
proof (induction insts arbitrary: i ds k st)
  case Nil
  then show ?case by simp
next
  case (Cons inst insts)
  let ?res = "\<lambda>inst. fst inst = ''point_list_index''"
  obtain ds1 k1 st1 where step: "attributeStep geo i inst (ds, k, st) = (ds1, k1, st1)"
    by (cases "attributeStep geo i inst (ds, k, st)") auto
  from attributeStep_index [OF step] have k1: "k1 = (if ?res inst then i else k)" .
  from Cons.prems step have loop: "attributeLoop geo (i + 1) insts (ds1, k1, st1) = (ds', k', st')"
    by simp
  note IH = Cons.IH [OF loop]
  show ?case
  proof (cases "filter ?res insts = []")
    case True
    with IH have "k' = k1" by simp
    with k1 True show ?thesis by simp
  next
    case False
    with IH have b: "i + 1 \<le> k'" "k' < i + 1 + int (length insts)"
      and l: "insts ! nat (k' - (i + 1)) = last (filter ?res insts)"
      by simp_all
    from b have "nat (k' - i) = Suc (nat (k' - (i + 1)))" by simp
    with l have "(inst # insts) ! nat (k' - i) = last (filter ?res insts)" by simp
    with False b show ?thesis by simp
  qed
qed

lemma indexPrims_simps [simp]:
  "indexPrims (addWarning d st) = indexPrims st"
  "indexPrims (called c st) = indexPrims st"
  "indexPrims (warnIgnored r st) = indexPrims st"
  "indexPrims (createVdbPrimitive p st) = indexPrims st @ (if isIndexPrim p then [p] else [])"
  by (simp_all add: indexPrims_def addWarning_def called_def warnIgnored_def
      createVdbPrimitive_def)

lemma gdp_simps [simp]:
  "gdp (addWarning d st) = gdp st"
  "gdp (addError d st) = gdp st"
  "gdp (addMessage d st) = gdp st"
  "gdp (called c st) = gdp st"
  "gdp (warnIgnored r st) = gdp st"
  "gdp (createVdbPrimitive p st) = gdp st @ [p]"
  by (simp_all add: addWarning_def addError_def addMessage_def called_def warnIgnored_def
      createVdbPrimitive_def)

lemma transferAttributes_indexPrims [simp]:
  "indexPrims (transferAttributes ds x st) = indexPrims st"
  by (simp add: indexPrims_def transferAttributes_gdp filter_empty_conv)

text \<open>
  Claim C8, as amended. When the conversion with attributes is not interrupted after the
  rasterization: no attribute grid it adds reads an attribute named
  \<^verbatim>\<open>point_list_index\<close>, so a descriptor with that name materializes nothing from the
  attribute store; and if there is such a descriptor, the index grid the rasterizer has
  produced is added to the output as it is, exactly once, under the output name of the
  last such descriptor, or under \<^verbatim>\<open>point_list_index\<close> when that name is empty. With
  no such descriptor no index grid is added.
\<close>

theorem index_grid_export:
  assumes "\<not> wasInterrupted E 1"
      and "rs = filter (\<lambda>inst. fst inst = ''point_list_index'') (attrList P)"
      and "r = particlesToLevelSet E (rasterCall P True g pa)"
  shows "indexPrims (snd (convertWithAttributes E P g pa geo st)) =
           indexPrims st @
           (if rs = [] then []
            else [IndexPrim (attributeGrid r)
                    (if fst (snd (last rs)) = [] then ''point_list_index''
                     else fst (snd (last rs)))]) \<and>
         (\<forall>d x. AttributePrim d x \<in> set (gdp (snd (convertWithAttributes E P g pa geo st))) \<longrightarrow>
                AttributePrim d x \<in> set (gdp st) \<or> adAttribute d \<noteq> ''point_list_index'')"
proof (cases "attrList P = []")
  case True
  with assms show ?thesis by (simp add: convertWithAttributes_def Let_def)
next
  case False
  let ?st1 = "warnIgnored r (called (Rasterize (rasterCall P True g pa)) st)"
  obtain ds k st2 where c: "constructGenericAtttributeList P geo ?st1 = (ds, k, st2)"
    by (metis prod_cases3)
  then have loop: "attributeLoop geo 1 (attrList P) ([], - 1, ?st1) = (ds, k, st2)"
    by (simp add: constructGenericAtttributeList_def)
  from constructGenericAtttributeList_keeps [OF c] have g2: "gdp st2 = gdp st" by simp
  then have i2: "indexPrims st2 = indexPrims st" by (simp add: indexPrims_def)
  from attributeLoop_details [OF loop] have nd: "\<forall>d \<in> set ds. adAttribute d \<noteq> ''point_list_index''"
    by simp
  from attributeLoop_index [OF loop] assms(2)
  have k0: "rs = [] \<longrightarrow> k = - 1"
    and k1: "rs \<noteq> [] \<longrightarrow> 1 \<le> k \<and> k \<le> int (length (attrList P)) \<and>
               attrList P ! nat (k - 1) = last rs"
    by auto
  let ?g' = "g\<lparr>voxels := rrVoxels r\<rparr>"
  let ?st3 = "transferAttributes ds (transform ?g') st2"
  have res: "snd (convertWithAttributes E P g pa geo st) =
      (if k > - 1
       then createVdbPrimitive
              (IndexPrim (attributeGrid r)
                 (if attributeGridName P k = [] then ''point_list_index''
                  else attributeGridName P k)) ?st3
       else ?st3)"
    using assms(1,3) False c by (simp add: convertWithAttributes_def Let_def)
  show ?thesis
  proof (cases "rs = []")
    case True
    with k0 res g2 i2 nd show ?thesis
      by (auto simp add: transferAttributes_gdp)
  next
    case False
    with k1 have "k > - 1" and "attributeGridName P k = fst (snd (last rs))"
      by (simp_all add: attributeGridName_def)
    with False res g2 i2 nd show ?thesis
      by (auto simp add: transferAttributes_gdp)
  qed
qed


theorem index_grid_export_witness:
  "\<not> wasInterrupted idleEnv 1 \<and>
   indexPrims (snd (convertWithAttributes idleEnv
       (exampleParms\<lparr>attrList := [(''temperature'', [], 0), (''point_list_index'', ''closest'', 0)]\<rparr>)
       (FloatGrid_create (3 / 10)) (newParticleList warmPoints 1 1) warmPoints newNode))
     = [IndexPrim \<lparr> idxTransform = createLinearTransform 1, idxVoxels = (\<lambda>x. None) \<rparr> ''closest''] \<and>
   AttributePrim \<lparr> adValueType = VT_float, adAttribute = ''temperature'', adComponent = 0,
                   adIsVector = False, adVecType = None, adName = None \<rparr>
                 (createLinearTransform 1)
     \<in> set (gdp (snd (convertWithAttributes idleEnv
       (exampleParms\<lparr>attrList := [(''temperature'', [], 0), (''point_list_index'', ''closest'', 0)]\<rparr>)
       (FloatGrid_create (3 / 10)) (newParticleList warmPoints 1 1) warmPoints newNode))) \<and>
   adAttribute \<lparr> adValueType = VT_float, adAttribute = ''temperature'', adComponent = 0,
                 adIsVector = False, adVecType = None, adName = None \<rparr> \<noteq> ''point_list_index''"
proof -
  let ?P = "exampleParms\<lparr>attrList := [(''temperature'', [], 0), (''point_list_index'', ''closest'', 0)]\<rparr>"
  let ?d = "\<lparr> adValueType = VT_float, adAttribute = ''temperature'', adComponent = 0,
                 adIsVector = False, adVecType = None, adName = None \<rparr>"
  have h1: "\<not> wasInterrupted idleEnv 1" by (simp add: idleEnv_def)
  have h2: "AttributePrim ?d (createLinearTransform 1)
     \<in> set (gdp (snd (convertWithAttributes idleEnv ?P
       (FloatGrid_create (3 / 10)) (newParticleList warmPoints 1 1) warmPoints newNode)))"
    by (simp add: eval_defs warmPoints_def)
  have h3: "gdp newNode = []" "indexPrims newNode = []" by (simp_all add: newNode_def indexPrims_def)
  from index_grid_export [OF h1 refl refl, of ?P "FloatGrid_create (3 / 10)"
      "newParticleList warmPoints 1 1" warmPoints newNode] h2 h3
  have "indexPrims (snd (convertWithAttributes idleEnv ?P
       (FloatGrid_create (3 / 10)) (newParticleList warmPoints 1 1) warmPoints newNode))
     = [IndexPrim \<lparr> idxTransform = createLinearTransform 1, idxVoxels = (\<lambda>x. None) \<rparr> ''closest'']
     \<and> adAttribute ?d \<noteq> ''point_list_index''"
    by (simp add: exampleParms_def idleEnv_def rasterCall_def FloatGrid_create_def)
  with h1 h2 show ?thesis by blast
qed

text \<open>
  The claim as written fails for the first of two descriptors with the reserved name: the
  index grid is exported once, under the second output name, and never under the first.
\<close>

theorem index_grid_named_once_counterexample:
  "indexNames (cookVDBSop idleEnv
      (exampleParms\<lparr>attrList := [(''point_list_index'', ''a'', 0),
                                 (''point_list_index'', ''b'', 0)]\<rparr>) twoPoints None)
     = [''b'']"
  by (simp add: eval_defs indexNames_def float64_voxel_limit)

subsection \<open>Warnings issued earlier pass through\<close>

lemma withWarnings_simps [simp]:
  "addWarning d (withWarnings w st) = withWarnings w (addWarning d st)"
  "addError d (withWarnings w st) = withWarnings w (addError d st)"
  "addMessage d (withWarnings w st) = withWarnings w (addMessage d st)"
  "called c (withWarnings w st) = withWarnings w (called c st)"
  "createVdbPrimitive p (withWarnings w st) = withWarnings w (createVdbPrimitive p st)"
  "warnIgnored r (withWarnings w st) = withWarnings w (warnIgnored r st)"
  "mVoxelSize (withWarnings w st) = mVoxelSize st"
  by (simp_all add: withWarnings_def addWarning_def addError_def addMessage_def called_def
      createVdbPrimitive_def warnIgnored_def)

lemma convert_withWarnings:
  "convert E P g pa (withWarnings w st) =
     (fst (convert E P g pa st), withWarnings w (snd (convert E P g pa st)))"
  by (simp add: convert_def Let_def)

lemma attributeStep_withWarnings:
  "attributeStep geo i inst (ds, k, withWarnings w st) =
     (fst (attributeStep geo i inst (ds, k, st)),
      fst (snd (attributeStep geo i inst (ds, k, st))),
      withWarnings w (snd (snd (attributeStep geo i inst (ds, k, st)))))"
  by (simp add: attributeStep_def Let_def split: prod.splits option.splits)

lemma attributeLoop_withWarnings:
  "attributeLoop geo i insts (ds, k, withWarnings w st) =
     (fst (attributeLoop geo i insts (ds, k, st)),
      fst (snd (attributeLoop geo i insts (ds, k, st))),
      withWarnings w (snd (snd (attributeLoop geo i insts (ds, k, st)))))"
proof (induction insts arbitrary: i ds k st)
  case Nil
  then show ?case by simp
next
  case (Cons inst insts)
  obtain ds1 k1 st1 where step: "attributeStep geo i inst (ds, k, st) = (ds1, k1, st1)"
    by (cases "attributeStep geo i inst (ds, k, st)") auto
  then have "attributeStep geo i inst (ds, k, withWarnings w st) = (ds1, k1, withWarnings w st1)"
    by (simp add: attributeStep_withWarnings)
  with step Cons.IH [of "i + 1" ds1 k1 st1] show ?case by simp
qed

lemma transferAttributes_withWarnings:
  "transferAttributes ds x (withWarnings w st) = withWarnings w (transferAttributes ds x st)"
  unfolding transferAttributes_def
  by (induction ds arbitrary: st) simp_all

lemma convertWithAttributes_withWarnings:
  "convertWithAttributes E P g pa geo (withWarnings w st) =
     (fst (convertWithAttributes E P g pa geo st),
      withWarnings w (snd (convertWithAttributes E P g pa geo st)))"
  by (simp add: convertWithAttributes_def constructGenericAtttributeList_def Let_def
      attributeLoop_withWarnings transferAttributes_withWarnings case_prod_beta)

lemma buildMask_withWarnings:
  "buildMask E P geo sph x bg bw pm pa (withWarnings w st) =
     (fst (buildMask E P geo sph x bg bw pm pa st),
      withWarnings w (snd (buildMask E P geo sph x bg bw pm pa st)))"
  by (simp add: buildMask_def Let_def convert_withWarnings case_prod_beta split: option.splits)

lemma outputPrimary_withWarnings:
  "outputPrimary P g (withWarnings w st) = withWarnings w (outputPrimary P g st)"
  by (simp add: outputPrimary_def Let_def)

lemma primaryConversion_withWarnings:
  "primaryConversion E P geo pa x bg bw rg (withWarnings w st) =
     (fst (primaryConversion E P geo pa x bg bw rg st),
      fst (snd (primaryConversion E P geo pa x bg bw rg st)),
      withWarnings w (snd (snd (primaryConversion E P geo pa x bg bw rg st))))"
  by (simp add: primaryConversion_def Let_def convert_withWarnings
      convertWithAttributes_withWarnings case_prod_beta split: option.splits)

lemma conversionStage_withWarnings:
  "conversionStage E P geo pa x bg rg (withWarnings w st) =
     withWarnings w (conversionStage E P geo pa x bg rg st)"
  by (simp add: conversionStage_def Let_def primaryConversion_withWarnings
      buildMask_withWarnings outputPrimary_withWarnings case_prod_beta)

text \<open>Only the reference stage reads the merge toggle.\<close>

lemma rasterCall_merge [simp]:
  "rasterCall (P\<lparr>merge := m\<rparr>) b g pa = rasterCall P b g pa"
  by (simp add: rasterCall_def rasterJob_def Let_def)

lemma convert_merge [simp]:
  "convert E (P\<lparr>merge := m\<rparr>) g pa st = convert E P g pa st"
  by (simp add: convert_def Let_def)

lemma convertWithAttributes_merge [simp]:
  "convertWithAttributes E (P\<lparr>merge := m\<rparr>) g pa geo st =
     convertWithAttributes E P g pa geo st"
  by (simp add: convertWithAttributes_def constructGenericAtttributeList_def
      attributeGridName_def Let_def case_prod_beta)

lemma buildMask_merge [simp]:
  "buildMask E (P\<lparr>merge := m\<rparr>) geo sph x bg bw pm pa st =
     buildMask E P geo sph x bg bw pm pa st"
  by (simp add: buildMask_def Let_def case_prod_beta split: option.splits)

lemma outputPrimary_merge [simp]:
  "outputPrimary (P\<lparr>merge := m\<rparr>) g st = outputPrimary P g st"
  by (simp add: outputPrimary_def Let_def)

lemma primaryConversion_merge [simp]:
  "primaryConversion E (P\<lparr>merge := m\<rparr>) geo pa x bg bw rg st =
     primaryConversion E P geo pa x bg bw rg st"
  by (simp add: primaryConversion_def Let_def case_prod_beta split: option.splits)

lemma conversionStage_merge [simp]:
  "conversionStage E (P\<lparr>merge := m\<rparr>) geo pa x bg rg st =
     conversionStage E P geo pa x bg rg st"
  by (simp add: conversionStage_def Let_def case_prod_beta)

subsection \<open>Merging with the reference grid\<close>

lemma referenceStage_none:
  "referenceStage P None x bg st = Inr (x, bg, None, st)"
  by (simp add: referenceStage_def)

lemma referenceStage_refused:
  assumes "firstVdbPrim rg (referencevdb P) = Some r"
      and "\<not> (getGridClass r = GRID_LEVEL_SET \<and> gridType r = VT_float)"
  shows "referenceStage (P\<lparr>merge := 0\<rparr>) (Some rg) x bg st =
           Inr (transform r, bg, None, st\<lparr>mVoxelSize := float32 (fst (voxelSize (transform r)))\<rparr>)"
    and "merge P \<noteq> 0 \<Longrightarrow>
         referenceStage P (Some rg) x bg st =
           Inr (transform r, bg, None,
                addWarning (if getGridClass r = GRID_LEVEL_SET then NotAFloatGrid else NotALevelSet)
                  (st\<lparr>mVoxelSize := float32 (fst (voxelSize (transform r)))\<rparr>))"
  using assms by (auto simp add: referenceStage_def Let_def deepCopyAsFloatGrid_def)

lemma referenceStage_no_prim:
  "firstVdbPrim rg (referencevdb P) = None \<Longrightarrow>
   referenceStage P (Some rg) x bg st = Inl (addError NoVdbPrimitives st)"
  by (simp add: referenceStage_def)

text \<open>
  Claim C2, as amended. Without a second input the merge toggle is not read: the cook is
  the cook with the toggle off, and a request to merge is ignored without a warning.
  Let merging be requested and the second input supply a reference VDB primitive that
  is not a level set of floats. Then a cook that gets as far as the reference stage (the
  voxel size, narrowed to a float, is not below the double \<^verbatim>\<open>1e-5\<close>, and an output is
  selected) is the cook with the toggle off with one warning in front of its warnings
  ("Cannot write into the selected reference grid because it is not a float grid." for
  a level set of another type, "Can only write directly into a level set grid."
  otherwise): same errors, same output, same calls, so the merge is skipped, the new
  field stands alone and nothing is aborted. With a second input that holds no VDB
  primitive such a cook stops with the error "Second input has no VDB primitives.",
  whatever the merge toggle.
\<close>

theorem merge_refused:
  "cookVDBSop E P geo None = cookVDBSop E (P\<lparr>merge := 0\<rparr>) geo None \<and>
   (merge P \<noteq> 0 \<and>
    firstVdbPrim rg (referencevdb P) = Some r \<and>
    \<not> (getGridClass r = GRID_LEVEL_SET \<and> gridType r = VT_float) \<and>
    \<not> float32 (voxelsize P) < float64 (1 / 100000) \<and>
    (builddistance P \<noteq> 0 \<or> buildfog P \<noteq> 0 \<or> attrList P \<noteq> []) \<longrightarrow>
      cookVDBSop E P geo (Some rg) =
        withWarnings
          [if getGridClass r = GRID_LEVEL_SET then NotAFloatGrid else NotALevelSet]
          (cookVDBSop E (P\<lparr>merge := 0\<rparr>) geo (Some rg))) \<and>
   (firstVdbPrim rg (referencevdb P) = None \<and>
    \<not> float32 (voxelsize P) < float64 (1 / 100000) \<and>
    (builddistance P \<noteq> 0 \<or> buildfog P \<noteq> 0 \<or> attrList P \<noteq> []) \<longrightarrow>
      cookVDBSop E P geo (Some rg) =
        \<lparr> errors = [NoVdbPrimitives], warnings = [], messages = [], gdp = [], calls = [],
          mVoxelSize = float32 (voxelsize P) \<rparr>)"
proof (intro conjI impI)
  show "cookVDBSop E P geo None = cookVDBSop E (P\<lparr>merge := 0\<rparr>) geo None"
    by (simp add: cookVDBSop_def Let_def referenceStage_none)
next
  assume a: "merge P \<noteq> 0 \<and>
          firstVdbPrim rg (referencevdb P) = Some r \<and>
          \<not> (getGridClass r = GRID_LEVEL_SET \<and> gridType r = VT_float) \<and>
          \<not> float32 (voxelsize P) < float64 (1 / 100000) \<and>
          (builddistance P \<noteq> 0 \<or> buildfog P \<noteq> 0 \<or> attrList P \<noteq> [])"
  let ?W = "if getGridClass r = GRID_LEVEL_SET then NotAFloatGrid else NotALevelSet"
  let ?P0 = "P\<lparr>merge := 0\<rparr>"
  let ?st = "newNode\<lparr>mVoxelSize := float32 (voxelsize P)\<rparr>"
  let ?st1 = "?st\<lparr>mVoxelSize := float32 (fst (voxelSize (transform r)))\<rparr>"
  let ?pa = "newParticleList geo (particlescale P) (velocityscale P)"
  let ?bg = "if useworldspace P \<noteq> 0 then float32 (halfband P)
             else float32 (float32 (voxelsize P) * float32 (halfbandvoxels P))"
  from a have mg: "merge P \<noteq> 0"
    and prim: "firstVdbPrim rg (referencevdb P) = Some r"
    and nf: "\<not> (getGridClass r = GRID_LEVEL_SET \<and> gridType r = VT_float)"
    and small: "\<not> float32 (voxelsize P) < float64 (1 / 100000)"
    and sel: "builddistance P \<noteq> 0 \<or> buildfog P \<noteq> 0 \<or> attrList P \<noteq> []"
    by simp_all
  have w: "addWarning ?W ?st1 = withWarnings [?W] ?st1"
    by (simp add: addWarning_def withWarnings_def newNode_def)
  have c1: "cookVDBSop E P geo (Some rg) =
              conversionStage E P geo ?pa (transform r) ?bg None (withWarnings [?W] ?st1)"
    using small sel referenceStage_refused(2) [OF prim nf mg] w
    by (simp add: cook_main)
  have small0: "\<not> float32 (voxelsize ?P0) < float64 (1 / 100000)"
    and sel0: "builddistance ?P0 \<noteq> 0 \<or> buildfog ?P0 \<noteq> 0 \<or> attrList ?P0 \<noteq> []"
    using small sel by simp_all
  have c0: "cookVDBSop E ?P0 geo (Some rg) =
              conversionStage E P geo ?pa (transform r) ?bg None ?st1"
    using referenceStage_refused(1) [OF prim nf]
    by (simp add: cook_main [OF small0 sel0])
  show "cookVDBSop E P geo (Some rg) = withWarnings [?W] (cookVDBSop E ?P0 geo (Some rg))"
    unfolding c1 c0 by (rule conversionStage_withWarnings)
next
  assume a: "firstVdbPrim rg (referencevdb P) = None \<and>
          \<not> float32 (voxelsize P) < float64 (1 / 100000) \<and>
          (builddistance P \<noteq> 0 \<or> buildfog P \<noteq> 0 \<or> attrList P \<noteq> [])"
  then show "cookVDBSop E P geo (Some rg) =
              \<lparr> errors = [NoVdbPrimitives], warnings = [], messages = [], gdp = [], calls = [],
                mVoxelSize = float32 (voxelsize P) \<rparr>"
    by (simp add: cook_main referenceStage_no_prim addError_def newNode_def)
qed

theorem merge_refused_witness:
  "merge (exampleParms\<lparr>merge := 1\<rparr>) \<noteq> 0 \<and>
   firstVdbPrim doubleLevelSet (referencevdb (exampleParms\<lparr>merge := 1\<rparr>))
     = Some ((FloatGrid_create (1 / 2))
                 \<lparr>gridType := VT_double, getGridClass := GRID_LEVEL_SET,
                  transform := createLinearTransform (1 / 4)\<rparr>) \<and>
   \<not> float32 (voxelsize (exampleParms\<lparr>merge := 1\<rparr>)) < float64 (1 / 100000) \<and>
   cookVDBSop idleEnv (exampleParms\<lparr>merge := 1\<rparr>) twoPoints (Some doubleLevelSet) =
     withWarnings [NotAFloatGrid]
       (cookVDBSop idleEnv (exampleParms\<lparr>merge := 1, merge := 0\<rparr>) twoPoints
          (Some doubleLevelSet)) \<and>
   cookVDBSop idleEnv (exampleParms\<lparr>merge := 1\<rparr>) twoPoints None =
     cookVDBSop idleEnv (exampleParms\<lparr>merge := 1, merge := 0\<rparr>) twoPoints None \<and>
   firstVdbPrim emptySecondInput (referencevdb exampleParms) = None \<and>
   merge exampleParms = 0 \<and>
   cookVDBSop idleEnv exampleParms twoPoints (Some emptySecondInput) =
     \<lparr> errors = [NoVdbPrimitives], warnings = [], messages = [], gdp = [], calls = [],
       mVoxelSize = 1 / 8 \<rparr>"
proof -
  let ?P = "exampleParms\<lparr>merge := 1\<rparr>"
  let ?r = "(FloatGrid_create (1 / 2))
                 \<lparr>gridType := VT_double, getGridClass := GRID_LEVEL_SET,
                  transform := createLinearTransform (1 / 4)\<rparr>"
  have h0: "merge ?P \<noteq> 0" by simp
  have h1: "firstVdbPrim doubleLevelSet (referencevdb ?P) = Some ?r"
    by (simp add: doubleLevelSet_def)
  have h2: "\<not> (getGridClass ?r = GRID_LEVEL_SET \<and> gridType ?r = VT_float)"
    "getGridClass ?r = GRID_LEVEL_SET" by simp_all
  have h3: "\<not> float32 (voxelsize ?P) < float64 (1 / 100000)" "builddistance ?P \<noteq> 0"
    by (simp_all add: exampleParms_def float64_voxel_limit)
  have k1: "firstVdbPrim emptySecondInput (referencevdb exampleParms) = None"
    by (simp add: emptySecondInput_def)
  have k2: "merge exampleParms = 0" by (simp add: exampleParms_def)
  have k3: "\<not> float32 (voxelsize exampleParms) < float64 (1 / 100000)"
    "builddistance exampleParms \<noteq> 0" "float32 (voxelsize exampleParms) = 1 / 8"
    by (simp_all add: exampleParms_def float64_voxel_limit)
  from merge_refused [of idleEnv ?P twoPoints doubleLevelSet ?r] h0 h1 h2 h3
  have a: "cookVDBSop idleEnv ?P twoPoints (Some doubleLevelSet) =
     withWarnings [NotAFloatGrid]
       (cookVDBSop idleEnv (exampleParms\<lparr>merge := 1, merge := 0\<rparr>) twoPoints
          (Some doubleLevelSet)) \<and>
     cookVDBSop idleEnv ?P twoPoints None =
       cookVDBSop idleEnv (exampleParms\<lparr>merge := 1, merge := 0\<rparr>) twoPoints None"
    by simp
  from merge_refused [of idleEnv exampleParms twoPoints emptySecondInput] k1 k3
  have b: "cookVDBSop idleEnv exampleParms twoPoints (Some emptySecondInput) =
     \<lparr> errors = [NoVdbPrimitives], warnings = [], messages = [], gdp = [], calls = [],
       mVoxelSize = 1 / 8 \<rparr>"
    by simp
  from a b h0 h1 h3(1) k1 k2 show ?thesis by blast
qed

text \<open>
  The claim as written fails when the reference is absent: with merging requested and no
  second input the cook adds the distance field and issues no warning at all.
\<close>

theorem merge_without_reference_counterexample:
  "merge (exampleParms\<lparr>merge := 1\<rparr>) \<noteq> 0 \<and>
   warnings (cookVDBSop idleEnv (exampleParms\<lparr>merge := 1\<rparr>) twoPoints None) = [] \<and>
   errors (cookVDBSop idleEnv (exampleParms\<lparr>merge := 1\<rparr>) twoPoints None) = [] \<and>
   length (gdp (cookVDBSop idleEnv (exampleParms\<lparr>merge := 1\<rparr>) twoPoints None)) = 1"
  by (simp add: eval_defs float64_voxel_limit)

subsection \<open>The reference transform and background\<close>

lemma primaryPrims_simps [simp]:
  "primaryPrims (addWarning d st) = primaryPrims st"
  "primaryPrims (called c st) = primaryPrims st"
  "primaryPrims (warnIgnored r st) = primaryPrims st"
  "primaryPrims (createVdbPrimitive p st) = primaryPrims st @ (if isPrimaryPrim p then [p] else [])"
  by (simp_all add: primaryPrims_def)

lemma messages_simps [simp]:
  "messages (addWarning d st) = messages st"
  "messages (called c st) = messages st"
  "messages (warnIgnored r st) = messages st"
  "messages (createVdbPrimitive p st) = messages st"
  by (simp_all add: addWarning_def called_def warnIgnored_def createVdbPrimitive_def)

lemma attributeStep_messages:
  "attributeStep geo i inst (ds, k, st) = (ds', k', st') \<Longrightarrow> messages st' = messages st"
  by (auto simp add: attributeStep_def Let_def split: prod.splits if_splits option.splits)

lemma attributeLoop_messages:
  "attributeLoop geo i insts (ds, k, st) = (ds', k', st') \<Longrightarrow> messages st' = messages st"
proof (induction insts arbitrary: i ds k st)
  case Nil
  then show ?case by simp
next
  case (Cons inst insts)
  obtain ds1 k1 st1 where step: "attributeStep geo i inst (ds, k, st) = (ds1, k1, st1)"
    by (cases "attributeStep geo i inst (ds, k, st)") auto
  from Cons.prems step have "attributeLoop geo (i + 1) insts (ds1, k1, st1) = (ds', k', st')"
    by simp
  from Cons.IH [OF this] attributeStep_messages [OF step] show ?case by simp
qed

lemma transferAttributes_messages [simp]:
  "messages (transferAttributes ds x st) = messages st"
  unfolding transferAttributes_def
  by (induction ds arbitrary: st) simp_all

lemma transferAttributes_primaryPrims [simp]:
  "primaryPrims (transferAttributes ds x st) = primaryPrims st"
  by (simp add: primaryPrims_def transferAttributes_gdp filter_empty_conv)

lemma convert_primary [simp]:
  "primaryPrims (snd (convert E P g pa st)) = primaryPrims st"
  "messages (snd (convert E P g pa st)) = messages st"
  "transform (fst (convert E P g pa st)) = transform g"
  "background (fst (convert E P g pa st)) = background g"
  by (simp_all add: convert_def Let_def)

lemma convertWithAttributes_primary [simp]:
  "primaryPrims (snd (convertWithAttributes E P g pa geo st)) = primaryPrims st"
  "messages (snd (convertWithAttributes E P g pa geo st)) = messages st"
  "transform (fst (convertWithAttributes E P g pa geo st)) = transform g"
  "background (fst (convertWithAttributes E P g pa geo st)) = background g"
proof -
  obtain ds k st' where c: "constructGenericAtttributeList P geo
      (warnIgnored (particlesToLevelSet E (rasterCall P True g pa))
         (called (Rasterize (rasterCall P True g pa)) st)) = (ds, k, st')"
    by (metis prod_cases3)
  from constructGenericAtttributeList_keeps [OF c] have "primaryPrims st' = primaryPrims st"
    by (simp add: primaryPrims_def)
  moreover from c have "messages st' = messages st"
    unfolding constructGenericAtttributeList_def by (simp add: attributeLoop_messages)
  ultimately show
    "primaryPrims (snd (convertWithAttributes E P g pa geo st)) = primaryPrims st"
    "messages (snd (convertWithAttributes E P g pa geo st)) = messages st"
    using c by (simp_all add: convertWithAttributes_def Let_def)
  from c show "transform (fst (convertWithAttributes E P g pa geo st)) = transform g"
    "background (fst (convertWithAttributes E P g pa geo st)) = background g"
    by (simp_all add: convertWithAttributes_def Let_def)
qed

lemma buildMask_primary [simp]:
  "primaryPrims (snd (buildMask E P geo sph x bg bw pm pa st)) = primaryPrims st"
  "messages (snd (buildMask E P geo sph x bg bw pm pa st)) = messages st"
  by (simp_all add: buildMask_def Let_def case_prod_beta split: option.splits)

lemma primaryConversion_primary [simp]:
  "primaryPrims (snd (snd (primaryConversion E P geo pa x bg bw rg st))) = primaryPrims st"
  "messages (snd (snd (primaryConversion E P geo pa x bg bw rg st))) = messages st"
  "transform (fst (primaryConversion E P geo pa x bg bw rg st)) = x"
  "background (fst (primaryConversion E P geo pa x bg bw rg st)) =
     (case rg of None \<Rightarrow> bg | Some g \<Rightarrow> background g)"
  by (simp_all add: primaryConversion_def Let_def case_prod_beta csgUnion_def FloatGrid_create_def
      split: option.splits)

lemma outputPrimary_primary:
  "primaryPrims (outputPrimary P g st) =
     primaryPrims st @
     (if builddistance P \<noteq> 0 then [DistancePrim (g\<lparr>getName := distancename P\<rparr>)] else []) @
     (if buildfog P \<noteq> 0
      then [FogPrim ((sdfToFogVolume (if builddistance P \<noteq> 0 then g\<lparr>getName := distancename P\<rparr>
                                       else g))\<lparr>getName := fogname P\<rparr>)]
      else [])"
  "messages (outputPrimary P g st) = messages st"
  by (simp_all add: outputPrimary_def Let_def)

lemma conversionStage_primary:
  "primaryPrims (conversionStage E P geo pa x bg rg st) = primaryPrims st \<or>
   (\<exists>g. transform g = x \<and> background g = (case rg of None \<Rightarrow> bg | Some g \<Rightarrow> background g) \<and>
        primaryPrims (conversionStage E P geo pa x bg rg st) =
          primaryPrims st @
          (if builddistance P \<noteq> 0 then [DistancePrim (g\<lparr>getName := distancename P\<rparr>)] else []) @
          (if buildfog P \<noteq> 0
           then [FogPrim ((sdfToFogVolume (if builddistance P \<noteq> 0
                                           then g\<lparr>getName := distancename P\<rparr>
                                           else g))\<lparr>getName := fogname P\<rparr>)]
           else []))"
proof (cases "wasInterrupted E 0")
  case True
  then show ?thesis by (simp add: conversionStage_def)
next
  case False
  let ?pc = "primaryConversion E P geo pa x bg \<lceil>float32 (bg / mVoxelSize st)\<rceil> rg st"
  have "primaryPrims (conversionStage E P geo pa x bg rg st) =
          primaryPrims st @
          (if builddistance P \<noteq> 0 then [DistancePrim ((fst ?pc)\<lparr>getName := distancename P\<rparr>)] else []) @
          (if buildfog P \<noteq> 0
           then [FogPrim ((sdfToFogVolume (if builddistance P \<noteq> 0
                                           then (fst ?pc)\<lparr>getName := distancename P\<rparr>
                                           else fst ?pc))\<lparr>getName := fogname P\<rparr>)]
           else [])"
    using False
    by (simp add: conversionStage_def Let_def case_prod_beta outputPrimary_primary)
  moreover have "transform (fst ?pc) = x"
    "background (fst ?pc) = (case rg of None \<Rightarrow> bg | Some g \<Rightarrow> background g)"
    by simp_all
  ultimately show ?thesis by blast
qed

lemma conversionStage_messages [simp]:
  "messages (conversionStage E P geo pa x bg rg st) = messages st"
  by (simp add: conversionStage_def Let_def case_prod_beta outputPrimary_primary)

lemma referenceStage_adopts:
  assumes "firstVdbPrim rg (referencevdb P) = Some r"
  shows "\<exists>bg' g' st'.
           referenceStage P (Some rg) x bg st = Inr (transform r, bg', g', st') \<and>
           gdp st' = gdp st \<and>
           (g' = None \<or> g' = Some r) \<and>
           (getGridClass r = GRID_LEVEL_SET \<and> gridType r = VT_float \<longrightarrow>
              bg' = background r \<and> messages st' = messages st @ [MatchingReference])"
  using assms
  by (auto simp add: referenceStage_def Let_def deepCopyAsFloatGrid_def addMessage_def
      addWarning_def)


lemma primary_in_gdp:
  "DistancePrim g \<in> set (gdp st) \<longleftrightarrow> DistancePrim g \<in> set (primaryPrims st)"
  "FogPrim g \<in> set (gdp st) \<longleftrightarrow> FogPrim g \<in> set (primaryPrims st)"
  by (simp_all add: primaryPrims_def)

lemma sdfToFogVolume_transform [simp]:
  "transform (sdfToFogVolume g) = transform g"
  by (simp add: sdfToFogVolume_def)

text \<open>
  Claim C3. Whenever the second input supplies a reference VDB primitive, the distance
  field and the fog volume of the output have the reference's transform. If the
  reference is a level set of floats, the distance field has the reference's background
  value, whatever the half-band parameters say, the fog volume is the fog conversion of
  a level set with that background, and a cook that gets as far as the reference stage
  reports the override: its only message is "Note: Matching reference level set
  half-band width and background value. (UI half-band parameter is ignored.)".
\<close>

theorem reference_transform_and_background:
  assumes "firstVdbPrim rg (referencevdb P) = Some r"
  shows "(DistancePrim g \<in> set (gdp (cookVDBSop E P geo (Some rg))) \<longrightarrow>
            transform g = transform r \<and>
            (getGridClass r = GRID_LEVEL_SET \<and> gridType r = VT_float \<longrightarrow>
               background g = background r)) \<and>
         (FogPrim f \<in> set (gdp (cookVDBSop E P geo (Some rg))) \<longrightarrow>
            transform f = transform r \<and>
            (getGridClass r = GRID_LEVEL_SET \<and> gridType r = VT_float \<longrightarrow>
               (\<exists>sdf. f = (sdfToFogVolume sdf)\<lparr>getName := fogname P\<rparr> \<and>
                      transform sdf = transform r \<and> background sdf = background r))) \<and>
         (getGridClass r = GRID_LEVEL_SET \<and> gridType r = VT_float \<and>
          \<not> float32 (voxelsize P) < float64 (1 / 100000) \<and>
          (builddistance P \<noteq> 0 \<or> buildfog P \<noteq> 0 \<or> attrList P \<noteq> []) \<longrightarrow>
            messages (cookVDBSop E P geo (Some rg)) = [MatchingReference])"
proof (cases "\<not> float32 (voxelsize P) < float64 (1 / 100000) \<and>
              (builddistance P \<noteq> 0 \<or> buildfog P \<noteq> 0 \<or> attrList P \<noteq> [])")
  case False
  then have "gdp (cookVDBSop E P geo (Some rg)) = []"
    by (cases "float32 (voxelsize P) < float64 (1 / 100000)")
       (auto simp add: cook_small cook_no_output newNode_def addError_def addWarning_def)
  with False show ?thesis by auto
next
  case True
  let ?st = "newNode\<lparr>mVoxelSize := float32 (voxelsize P)\<rparr>"
  let ?pa = "newParticleList geo (particlescale P) (velocityscale P)"
  let ?bg = "if useworldspace P \<noteq> 0 then float32 (halfband P)
             else float32 (float32 (voxelsize P) * float32 (halfbandvoxels P))"
  let ?match = "getGridClass r = GRID_LEVEL_SET \<and> gridType r = VT_float"
  from referenceStage_adopts [OF assms, of "createLinearTransform (float32 (voxelsize P))" ?bg ?st]
  obtain bg' g' st' where
    rs: "referenceStage P (Some rg) (createLinearTransform (float32 (voxelsize P))) ?bg ?st
           = Inr (transform r, bg', g', st')"
    and g0: "gdp st' = []"
    and g': "g' = None \<or> g' = Some r"
    and m: "?match \<longrightarrow> bg' = background r \<and> messages st' = [MatchingReference]"
    by (auto simp add: newNode_def)
  let ?cs = "conversionStage E P geo ?pa (transform r) bg' g' st'"
  have cook: "cookVDBSop E P geo (Some rg) = ?cs"
    using True rs by (simp add: cook_main)
  have p0: "primaryPrims st' = []" using g0 by (simp add: primaryPrims_def)
  have bgr: "?match \<longrightarrow> (case g' of None \<Rightarrow> bg' | Some h \<Rightarrow> background h) = background r"
    using g' m by auto
  from conversionStage_primary [of E P geo ?pa "transform r" bg' g' st']
  consider (none) "primaryPrims ?cs = []"
    | (some) h where "transform h = transform r"
        "background h = (case g' of None \<Rightarrow> bg' | Some h \<Rightarrow> background h)"
        "primaryPrims ?cs =
           (if builddistance P \<noteq> 0 then [DistancePrim (h\<lparr>getName := distancename P\<rparr>)] else []) @
           (if buildfog P \<noteq> 0
            then [FogPrim ((sdfToFogVolume (if builddistance P \<noteq> 0
                                            then h\<lparr>getName := distancename P\<rparr>
                                            else h))\<lparr>getName := fogname P\<rparr>)]
            else [])"
    using p0 by auto
  then have prims:
    "(DistancePrim g \<in> set (primaryPrims ?cs) \<longrightarrow>
        transform g = transform r \<and> (?match \<longrightarrow> background g = background r)) \<and>
     (FogPrim f \<in> set (primaryPrims ?cs) \<longrightarrow>
        transform f = transform r \<and>
        (?match \<longrightarrow> (\<exists>sdf. f = (sdfToFogVolume sdf)\<lparr>getName := fogname P\<rparr> \<and>
                      transform sdf = transform r \<and> background sdf = background r)))"
  proof cases
    case none
    then show ?thesis by simp
  next
    case (some h)
    let ?h = "if builddistance P \<noteq> 0 then h\<lparr>getName := distancename P\<rparr> else h"
    have th: "transform ?h = transform r" using some(1) by simp
    have bh: "?match \<longrightarrow> background ?h = background r" using some(2) bgr by simp
    have d: "DistancePrim g \<in> set (primaryPrims ?cs) \<longrightarrow>
        transform g = transform r \<and> (?match \<longrightarrow> background g = background r)"
      using some bgr by (auto split: if_splits)
    have fog: "FogPrim f \<in> set (primaryPrims ?cs) \<longrightarrow>
            f = (sdfToFogVolume ?h)\<lparr>getName := fogname P\<rparr>"
      unfolding some(3) by (auto split: if_splits)
    have "FogPrim f \<in> set (primaryPrims ?cs) \<longrightarrow>
        transform f = transform r \<and>
        (?match \<longrightarrow> (\<exists>sdf. f = (sdfToFogVolume sdf)\<lparr>getName := fogname P\<rparr> \<and>
                      transform sdf = transform r \<and> background sdf = background r))"
    proof (intro impI conjI)
      assume "FogPrim f \<in> set (primaryPrims ?cs)"
      with fog have f: "f = (sdfToFogVolume ?h)\<lparr>getName := fogname P\<rparr>" by simp
      with th show "transform f = transform r" by simp
      assume ?match
      with bh f th show "\<exists>sdf. f = (sdfToFogVolume sdf)\<lparr>getName := fogname P\<rparr> \<and>
                      transform sdf = transform r \<and> background sdf = background r"
        by blast
    qed
    with d show ?thesis by blast
  qed
  have msg: "?match \<longrightarrow> messages ?cs = [MatchingReference]" using m by simp
  from prims msg show ?thesis
    unfolding cook primary_in_gdp by blast
qed


theorem reference_transform_and_background_witness:
  "firstVdbPrim floatLevelSet (referencevdb (exampleParms\<lparr>buildfog := 1\<rparr>))
     = Some ((FloatGrid_create (1 / 2))
               \<lparr>getGridClass := GRID_LEVEL_SET, transform := createLinearTransform (1 / 4)\<rparr>) \<and>
   DistancePrim \<lparr> gridType = VT_float, getGridClass = GRID_LEVEL_SET,
                  transform = createLinearTransform (1 / 4), getName = ''surface'',
                  background = 1 / 2, voxels = (\<lambda>c. None) \<rparr>
     \<in> set (gdp (cookVDBSop idleEnv (exampleParms\<lparr>buildfog := 1\<rparr>) twoPoints
                   (Some floatLevelSet))) \<and>
   FogPrim \<lparr> gridType = VT_float, getGridClass = GRID_FOG_VOLUME,
             transform = createLinearTransform (1 / 4), getName = ''density'',
             background = 0, voxels = (\<lambda>c. None) \<rparr>
     \<in> set (gdp (cookVDBSop idleEnv (exampleParms\<lparr>buildfog := 1\<rparr>) twoPoints
                   (Some floatLevelSet))) \<and>
   (\<exists>sdf. \<lparr> gridType = VT_float, getGridClass = GRID_FOG_VOLUME,
             transform = createLinearTransform (1 / 4), getName = ''density'',
             background = 0, voxels = (\<lambda>c. None) \<rparr>
            = (sdfToFogVolume sdf)\<lparr>getName := ''density''\<rparr> \<and>
          transform sdf = createLinearTransform (1 / 4) \<and> background sdf = 1 / 2) \<and>
   messages (cookVDBSop idleEnv (exampleParms\<lparr>buildfog := 1\<rparr>) twoPoints (Some floatLevelSet))
     = [MatchingReference]"
proof -
  let ?P = "exampleParms\<lparr>buildfog := 1\<rparr>"
  let ?r = "(FloatGrid_create (1 / 2))
               \<lparr>getGridClass := GRID_LEVEL_SET, transform := createLinearTransform (1 / 4)\<rparr>"
  let ?g = "\<lparr> gridType = VT_float, getGridClass = GRID_LEVEL_SET,
                  transform = createLinearTransform (1 / 4), getName = ''surface'',
                  background = 1 / 2, voxels = (\<lambda>c. None) \<rparr>"
  let ?f = "\<lparr> gridType = VT_float, getGridClass = GRID_FOG_VOLUME,
             transform = createLinearTransform (1 / 4), getName = ''density'',
             background = 0, voxels = (\<lambda>c. None) \<rparr>"
  have h: "firstVdbPrim floatLevelSet (referencevdb ?P) = Some ?r"
    by (simp add: floatLevelSet_def)
  have d: "DistancePrim ?g \<in> set (gdp (cookVDBSop idleEnv ?P twoPoints (Some floatLevelSet)))"
    by (simp add: eval_defs floatLevelSet_def float64_voxel_limit)
  have f: "FogPrim ?f \<in> set (gdp (cookVDBSop idleEnv ?P twoPoints (Some floatLevelSet)))"
    by (simp add: eval_defs floatLevelSet_def float64_voxel_limit)
  have m: "getGridClass ?r = GRID_LEVEL_SET \<and> gridType ?r = VT_float"
    "transform ?r = createLinearTransform (1 / 4)" "background ?r = 1 / 2"
    by (simp_all add: FloatGrid_create_def)
  have p: "\<not> float32 (voxelsize ?P) < float64 (1 / 100000)" "builddistance ?P \<noteq> 0" "fogname ?P = ''density''"
    by (simp_all add: exampleParms_def float64_voxel_limit)
  from reference_transform_and_background [OF h, of ?g idleEnv twoPoints ?f] d f m p
  have "(\<exists>sdf. ?f = (sdfToFogVolume sdf)\<lparr>getName := ''density''\<rparr> \<and>
          transform sdf = createLinearTransform (1 / 4) \<and> background sdf = 1 / 2) \<and>
        messages (cookVDBSop idleEnv ?P twoPoints (Some floatLevelSet)) = [MatchingReference]"
    by simp
  with h d f show ?thesis by blast
qed

end
